theory Spec2Isabelle
  imports Complex_Main
begin

section \<open>Numbers and strings of the host language\<close>

text \<open>
  JavaScript numbers are modelled as \<^typ>\<open>real\<close> (times, pixels) and \<^typ>\<open>int\<close>
  (scores, lane and type indices). Rounding errors of the binary floating point format are
  outside the model.
\<close>

definition digit_char :: "nat \<Rightarrow> char" where
  "digit_char d = char_of (d + 48)"

fun string_of_nat :: "nat \<Rightarrow> string" where
  "string_of_nat n =
     (let q = n div 10
      in (if q = 0 then [] else string_of_nat q) @ [digit_char (n mod 10)])"

declare string_of_nat.simps [simp del]

text \<open>The text of an integer inside a template literal, as in \<open>`+${pts}`\<close>.\<close>

definition showNumber :: "int \<Rightarrow> string" where
  "showNumber i = (if 0 \<le> i then string_of_nat (nat i) else CHR ''-'' # string_of_nat (nat (- i)))"

definition startsWith :: "string \<Rightarrow> char \<Rightarrow> bool" where
  "startsWith text c = (case text of [] \<Rightarrow> False | d # _ \<Rightarrow> d = c)"

text \<open>\<open>Array.prototype.splice(i, 1)\<close>: an index past the end removes nothing.\<close>

definition splice1 :: "nat \<Rightarrow> 'a list \<Rightarrow> 'a list" where
  "splice1 i xs = take i xs @ drop (Suc i) xs"

section \<open>config.js\<close>

datatype effectKind = Rotate | Pulse | Fade

text \<open>
  A block type of \<open>config.blockTypes\<close>. The configured entries carry a colour and an
  effect (\<open>null\<close> is \<open>None\<close>); the game also reads the optional properties \<open>score\<close>
  and \<open>speed\<close>.
\<close>

record BlockType =
  bt_color :: string
  bt_effect :: "effectKind option"
  bt_score :: "int option"
  bt_speed :: "real option"

definition numLanes :: nat where
  "numLanes = 6"

definition player_size :: real where
  "player_size = 60"

definition player_pulseAmplitude :: real where
  "player_pulseAmplitude = 15 / 100"

definition player_pulseFrequency :: real where
  "player_pulseFrequency = 3 / 2"

definition scoring_hit :: int where
  "scoring_hit = 1"

definition scoring_miss :: int where
  "scoring_miss = 1"

definition blockTypes :: "BlockType list" where
  "blockTypes =
     [\<lparr>bt_color = ''#ff6bcb'', bt_effect = None, bt_score = None, bt_speed = None\<rparr>,
      \<lparr>bt_color = ''#5b86e5'', bt_effect = Some Rotate, bt_score = None, bt_speed = None\<rparr>,
      \<lparr>bt_color = ''#f8c967'', bt_effect = Some Pulse, bt_score = None, bt_speed = None\<rparr>]"

section \<open>util.js\<close>

definition rectIntersect ::
  "real \<Rightarrow> real \<Rightarrow> real \<Rightarrow> real \<Rightarrow> real \<Rightarrow> real \<Rightarrow> real \<Rightarrow> real \<Rightarrow> bool" where
  "rectIntersect ax ay aw ah bx byy bw bh =
     (ax < bx + bw \<and> ax + aw > bx \<and> ay < byy + bh \<and> ay + ah > byy)"

section \<open>Shared data: canvas, note events, songs\<close>

record Canvas =
  cv_width :: real
  cv_height :: real

record Note =
  n_time :: real
  n_type :: int
  n_lane :: int

text \<open>A level module: \<open>sg_spawns\<close> is \<open>None\<close> when the module exports no array.\<close>

record Song =
  sg_title :: string
  sg_file :: string
  sg_duration :: real
  sg_spawns :: "Note list option"

section \<open>player.js\<close>

record Player =
  p_canvas :: Canvas
  p_size :: real
  p_width :: real
  p_height :: real
  p_x :: real
  p_y :: real
  p_targetX :: real
  p_scale :: real
  p_animationTime :: real
  p_animationDuration :: real
  p_pulseTime :: real
  p_pulseAmplitude :: real
  p_pulseFrequency :: real

definition Player_new :: "Canvas \<Rightarrow> Player" where
  "Player_new cv =
     \<lparr>p_canvas = cv,
      p_size = player_size,
      p_width = player_size,
      p_height = player_size,
      p_x = (cv_width cv - player_size) / 2,
      p_y = cv_height cv - player_size - 20,
      p_targetX = (cv_width cv - player_size) / 2,
      p_scale = 1,
      p_animationTime = 0,
      p_animationDuration = 8 / 10,
      p_pulseTime = 0,
      p_pulseAmplitude = player_pulseAmplitude,
      p_pulseFrequency = player_pulseFrequency\<rparr>"

text \<open>
  The local \<open>entryScale\<close> of \<open>Player.update\<close>: while the animation clock is below the
  duration the clock is advanced by \<open>dt\<close> first and the curve is read at the new progress;
  afterwards the factor is the constant 1.
\<close>

definition entryScale :: "real \<Rightarrow> Player \<Rightarrow> real" where
  "entryScale dt p =
     (if p_animationTime p < p_animationDuration p then
        (let progress = min ((p_animationTime p + dt) / p_animationDuration p) 1
         in 8 / 10 + 2 / 10 * sin (progress * pi * 2))
      else 1)"

definition pulseScale :: "real \<Rightarrow> Player \<Rightarrow> real" where
  "pulseScale dt p =
     (let pulsePhase = 2 * pi * p_pulseFrequency p * (p_pulseTime p + dt)
      in 1 + p_pulseAmplitude p * sin pulsePhase)"

definition Player_update :: "real \<Rightarrow> Player \<Rightarrow> Player" where
  "Player_update dt p =
     (let interp = min (dt * 10) 1
      in p\<lparr>p_animationTime :=
             (if p_animationTime p < p_animationDuration p then p_animationTime p + dt
              else p_animationTime p),
           p_pulseTime := p_pulseTime p + dt,
           p_scale := entryScale dt p * pulseScale dt p,
           p_x := p_x p + (p_targetX p - p_x p) * interp\<rparr>)"

definition Player_setPosition :: "real \<Rightarrow> Player \<Rightarrow> Player" where
  "Player_setPosition touchX p =
     (let half = p_width p / 2;
          clamped = max half (min (cv_width (p_canvas p) - half) touchX)
      in p\<lparr>p_targetX := clamped - half\<rparr>)"

section \<open>block.js\<close>

record Block =
  b_x :: real
  b_y :: real
  b_size :: real
  b_speed :: real
  b_type :: BlockType
  b_rotation :: real
  b_pulseTime :: real
  b_alpha :: real

definition Block_new :: "real \<Rightarrow> real \<Rightarrow> real \<Rightarrow> real \<Rightarrow> BlockType \<Rightarrow> Block" where
  "Block_new x y sz speed ty =
     \<lparr>b_x = x, b_y = y, b_size = sz, b_speed = speed, b_type = ty,
      b_rotation = 0, b_pulseTime = 0, b_alpha = 1\<rparr>"

definition Block_update :: "real \<Rightarrow> Block \<Rightarrow> Block" where
  "Block_update dt b =
     (let b1 = b\<lparr>b_y := b_y b + b_speed b * dt\<rparr>
      in case bt_effect (b_type b1) of
           Some Rotate \<Rightarrow> b1\<lparr>b_rotation := b_rotation b1 + dt * pi * 2\<rparr>
         | Some Pulse \<Rightarrow>
             b1\<lparr>b_pulseTime := b_pulseTime b1 + dt,
                b_alpha := 7 / 10 + 3 / 10 * sin ((b_pulseTime b1 + dt) * pi * 2)\<rparr>
         | Some Fade \<Rightarrow> b1\<lparr>b_alpha := max 0 (b_alpha b1 - dt * (3 / 10))\<rparr>
         | None \<Rightarrow> b1)"

section \<open>effects.js\<close>

record ExpandingSquareEffect =
  ef_x :: real
  ef_y :: real
  ef_color :: string
  ef_life :: real
  ef_maxLife :: real
  ef_size :: real
  ef_growth :: real
  ef_lineWidth :: real

definition ExpandingSquareEffect_new :: "real \<Rightarrow> real \<Rightarrow> string \<Rightarrow> ExpandingSquareEffect" where
  "ExpandingSquareEffect_new x y c =
     \<lparr>ef_x = x, ef_y = y, ef_color = (if c = [] then ''#ffffff'' else c),
      ef_life = 4 / 10, ef_maxLife = 4 / 10, ef_size = 40, ef_growth = 160, ef_lineWidth = 3\<rparr>"

definition ExpandingSquareEffect_update ::
  "real \<Rightarrow> ExpandingSquareEffect \<Rightarrow> ExpandingSquareEffect" where
  "ExpandingSquareEffect_update dt e =
     e\<lparr>ef_life := ef_life e - dt, ef_size := ef_size e + ef_growth e * dt\<rparr>"

section \<open>gameScene.js\<close>

record ScoreEffect =
  se_x :: real
  se_y :: real
  se_text :: string
  se_life :: real
  se_maxLife :: real
  se_dy :: real
  se_alpha :: real
  se_color :: string

datatype audioCall = Play | Stop

text \<open>
  The scene object. \<open>audioLog\<close> lists the calls made on the audio context, in order;
  \<open>rnd\<close> and \<open>rndCount\<close> stand for \<open>Math.random\<close>: the \<open>n\<close>-th call returns the
  fractional part of \<open>rnd n\<close>, an arbitrary number of the half-open unit interval.
\<close>

record Game =
  g_canvas :: Canvas
  g_song :: Song
  g_player :: Player
  blocks :: "Block list"
  spawns :: "Note list"
  spawnIndex :: nat
  spawnInterval :: real
  spawnTimer :: real
  score :: int
  misses :: int
  timeElapsed :: real
  duration :: real
  gameOver :: bool
  scoreEffects :: "ScoreEffect list"
  effects :: "ExpandingSquareEffect list"
  audioLog :: "audioCall list"
  audioStarted :: bool
  usePattern :: bool
  lanePositions :: "real list"
  rnd :: "nat \<Rightarrow> real"
  rndCount :: nat

definition GameScene_new :: "Canvas \<Rightarrow> Song \<Rightarrow> (nat \<Rightarrow> real) \<Rightarrow> Game" where
  "GameScene_new cv sg r =
     (let sp = (case sg_spawns sg of Some xs \<Rightarrow> xs | None \<Rightarrow> []);
          laneCount = numLanes;
          laneWidth = cv_width cv / real laneCount
      in \<lparr>g_canvas = cv,
          g_song = sg,
          g_player = Player_new cv,
          blocks = [],
          spawns = sp,
          spawnIndex = 0,
          spawnInterval = 8 / 10,
          spawnTimer = 0,
          score = 0,
          misses = 0,
          timeElapsed = 0,
          duration = sg_duration sg,
          gameOver = False,
          scoreEffects = [],
          effects = [],
          audioLog = [],
          audioStarted = False,
          usePattern = (length sp > 0),
          lanePositions = map (\<lambda>i. laneWidth * real i + laneWidth / 2) [0..<laneCount],
          rnd = r,
          rndCount = 0\<rparr>)"

definition Math_random :: "Game \<Rightarrow> real \<times> Game" where
  "Math_random s = (frac (rnd s (rndCount s)), s\<lparr>rndCount := rndCount s + 1\<rparr>)"

definition randomRange :: "real \<Rightarrow> real \<Rightarrow> Game \<Rightarrow> real \<times> Game" where
  "randomRange lo hi s = (let (r, s') = Math_random s in (r * (hi - lo) + lo, s'))"

definition spawnBlockWithTypeDef :: "BlockType \<Rightarrow> int \<Rightarrow> Game \<Rightarrow> Game" where
  "spawnBlockWithTypeDef typeDef lane s =
     (let sz = 40;
          (x, s1) =
            (if 0 \<le> lane \<and> lane < int (length (lanePositions s))
             then (lanePositions s ! nat lane, s)
             else randomRange (sz / 2) (cv_width (g_canvas s) - sz / 2) s);
          y = - sz;
          speed = (case bt_speed typeDef of
                     None \<Rightarrow> 200
                   | Some v \<Rightarrow> if v = 0 then 200 else v)
      in s1\<lparr>blocks := blocks s1 @ [Block_new x y sz speed typeDef]\<rparr>)"

definition spawnBlockRandom :: "Game \<Rightarrow> Game" where
  "spawnBlockRandom s =
     (let (r1, s1) = Math_random s;
          typeDef = blockTypes ! nat \<lfloor>r1 * real (length blockTypes)\<rfloor>;
          (r2, s2) = Math_random s1;
          lane = \<lfloor>r2 * real numLanes\<rfloor>
      in spawnBlockWithTypeDef typeDef lane s2)"

definition spawnBlockOfType :: "int \<Rightarrow> int \<Rightarrow> Game \<Rightarrow> Game" where
  "spawnBlockOfType typeIndex lane s =
     (if typeIndex < 0 \<or> typeIndex \<ge> int (length blockTypes) then s
      else spawnBlockWithTypeDef (blockTypes ! nat typeIndex) lane s)"

definition addScoreEffect :: "real \<Rightarrow> real \<Rightarrow> string \<Rightarrow> Game \<Rightarrow> Game" where
  "addScoreEffect x y text s =
     s\<lparr>scoreEffects := scoreEffects s @
         [\<lparr>se_x = x, se_y = y, se_text = text, se_life = 8 / 10, se_maxLife = 8 / 10,
           se_dy = - 60, se_alpha = 1,
           se_color = (if startsWith text CHR ''+'' then ''#2ecc71'' else ''#e74c3c'')\<rparr>]\<rparr>"

text \<open>
  The loop of \<open>updateScoreEffects\<close> runs the index from the last element down to 0; the
  argument \<open>Suc i\<close> stands for the loop variable \<open>i\<close>.
\<close>

fun updateScoreEffects_loop :: "real \<Rightarrow> nat \<Rightarrow> ScoreEffect list \<Rightarrow> ScoreEffect list" where
  "updateScoreEffects_loop dt 0 es = es"
| "updateScoreEffects_loop dt (Suc i) es =
     (let eff = (es ! i)\<lparr>se_life := se_life (es ! i) - dt\<rparr>
      in if se_life eff \<le> 0 then updateScoreEffects_loop dt i (splice1 i es)
         else updateScoreEffects_loop dt i
                (es[i := eff\<lparr>se_y := se_y eff + se_dy eff * dt,
                             se_alpha := se_life eff / se_maxLife eff\<rparr>]))"

definition updateScoreEffects :: "real \<Rightarrow> Game \<Rightarrow> Game" where
  "updateScoreEffects dt s =
     s\<lparr>scoreEffects := updateScoreEffects_loop dt (length (scoreEffects s)) (scoreEffects s)\<rparr>"

fun updateEffects_loop ::
  "real \<Rightarrow> nat \<Rightarrow> ExpandingSquareEffect list \<Rightarrow> ExpandingSquareEffect list" where
  "updateEffects_loop dt 0 es = es"
| "updateEffects_loop dt (Suc i) es =
     (let eff = ExpandingSquareEffect_update dt (es ! i)
      in if ef_life eff \<le> 0 then updateEffects_loop dt i (splice1 i es)
         else updateEffects_loop dt i (es[i := eff]))"

definition endGame :: "Game \<Rightarrow> Game" where
  "endGame s = (if gameOver s then s else s\<lparr>gameOver := True, audioLog := audioLog s @ [Stop]\<rparr>)"

text \<open>
  The pattern branch of \<open>update\<close>: while the cursor is inside the pattern and the clock has
  reached the time of the entry under the cursor, hand the entry to \<open>spawnBlockOfType\<close> and
  advance the cursor. The second component lists, in call order, the entries handed over.
\<close>

function spawn_loop :: "Game \<times> Note list \<Rightarrow> Game \<times> Note list" where
  "spawn_loop (s, emitted) =
     (if spawnIndex s < length (spawns s) \<and> timeElapsed s \<ge> n_time (spawns s ! spawnIndex s)
      then
        (let spawnDef = spawns s ! spawnIndex s;
             s1 = spawnBlockOfType (n_type spawnDef) (n_lane spawnDef) s
         in spawn_loop (s1\<lparr>spawnIndex := spawnIndex s1 + 1\<rparr>, emitted @ [spawnDef]))
      else (s, emitted))"
  by pat_completeness auto
termination
  by (relation "measure (\<lambda>(s, emitted). length (spawns s) - spawnIndex s)")
    (auto simp: spawnBlockOfType_def spawnBlockWithTypeDef_def randomRange_def Math_random_def
      Let_def split: prod.splits)

declare spawn_loop.simps [simp del]

text \<open>
  The two tests of the collision loop. A block's \<open>x\<close> is its centre and its \<open>y\<close> its top
  edge; \<open>hitsPlayer\<close> is the call of \<open>rectIntersect\<close> on the block's square and the
  player's rectangle, \<open>fallenPast\<close> the test \<open>block.y - block.size / 2 > canvas.height\<close>.
\<close>

definition hitsPlayer :: "Player \<Rightarrow> Block \<Rightarrow> bool" where
  "hitsPlayer p block =
     (let blockLeft = b_x block - b_size block / 2;
          blockTop = b_y block
      in rectIntersect blockLeft blockTop (b_size block) (b_size block)
           (p_x p) (p_y p) (p_width p) (p_height p))"

definition fallenPast :: "Canvas \<Rightarrow> Block \<Rightarrow> bool" where
  "fallenPast cv block = (b_y block - b_size block / 2 > cv_height cv)"

definition hitPoints :: "Block \<Rightarrow> int" where
  "hitPoints block = (case bt_score (b_type block) of Some v \<Rightarrow> v | None \<Rightarrow> scoring_hit)"

text \<open>One iteration of the collision loop of \<open>update\<close>, for the block at index \<open>i\<close>.\<close>

definition collide_step :: "real \<Rightarrow> nat \<Rightarrow> Game \<times> nat list \<Rightarrow> Game \<times> nat list" where
  "collide_step dt i st =
     (let (s, toRemove) = st;
          block = Block_update dt (blocks s ! i);
          s1 = s\<lparr>blocks := (blocks s)[i := block]\<rparr>
      in if hitsPlayer (g_player s1) block
         then
           (let pts = hitPoints block;
                s2 = s1\<lparr>score := score s1 + pts\<rparr>;
                s3 = addScoreEffect (b_x block) (b_y block) (''+'' @ showNumber pts) s2;
                s4 = s3\<lparr>effects := effects s3 @
                       [ExpandingSquareEffect_new (b_x block) (b_y block)
                          (bt_color (b_type block))]\<rparr>
            in (s4, toRemove @ [i]))
         else if fallenPast (g_canvas s1) block then
           (let s2 = s1\<lparr>misses := misses s1 + 1\<rparr>;
                s3 = (if scoring_miss > 0
                      then addScoreEffect (b_x block) (cv_height (g_canvas s2) - 60)
                             (''-'' @ showNumber scoring_miss)
                             (s2\<lparr>score := max 0 (score s2 - scoring_miss)\<rparr>)
                      else s2)
            in (s3, toRemove @ [i]))
         else (s1, toRemove))"

function collide_loop :: "real \<Rightarrow> nat \<Rightarrow> Game \<times> nat list \<Rightarrow> Game \<times> nat list" where
  "collide_loop dt i st =
     (if i < length (blocks (fst st)) then collide_loop dt (Suc i) (collide_step dt i st)
      else st)"
  by pat_completeness auto
termination
  by (relation "measure (\<lambda>(dt, i, st). length (blocks (fst st)) - i)")
    (auto simp: collide_step_def addScoreEffect_def Let_def split: prod.splits)

declare collide_loop.simps [simp del]

text \<open>The removal loop: the recorded indices are spliced out from the last one down.\<close>

definition remove_blocks :: "nat list \<Rightarrow> Block list \<Rightarrow> Block list" where
  "remove_blocks toRemove bs = fold splice1 (rev toRemove) bs"

text \<open>
  \<open>update\<close> is split at its comments. \<open>advance_clock\<close> is the lazy start of the audio
  and the advance of \<open>timeElapsed\<close>; \<open>update_spawn\<close> adds the spawning of blocks, from
  the pattern or at the random interval.
\<close>

definition advance_clock :: "real \<Rightarrow> Game \<Rightarrow> Game" where
  "advance_clock dt s =
     (let s1 = (if \<not> audioStarted s
                then s\<lparr>audioStarted := True, audioLog := audioLog s @ [Play]\<rparr> else s)
      in s1\<lparr>timeElapsed := timeElapsed s1 + dt\<rparr>)"

definition update_spawn :: "real \<Rightarrow> Game \<Rightarrow> Game" where
  "update_spawn dt s =
     (let s2 = advance_clock dt s
      in if usePattern s2 then fst (spawn_loop (s2, []))
         else
           (let t = s2\<lparr>spawnTimer := spawnTimer s2 + dt\<rparr>
            in if spawnTimer t \<ge> spawnInterval t
               then spawnBlockRandom (t\<lparr>spawnTimer := spawnTimer t - spawnInterval t\<rparr>)
               else t))"

text \<open>The state in which the collision loop starts: blocks spawned, player updated.\<close>

definition before_collisions :: "real \<Rightarrow> Game \<Rightarrow> Game" where
  "before_collisions dt s =
     (let s3 = update_spawn dt s in s3\<lparr>g_player := Player_update dt (g_player s3)\<rparr>)"

definition GameScene_update :: "real \<Rightarrow> Game \<Rightarrow> Game" where
  "GameScene_update dt s =
     (if gameOver s then s
      else
        (let s4 = before_collisions dt s;
             (s5, toRemove) = collide_loop dt 0 (s4, []);
             s6 = s5\<lparr>blocks := remove_blocks toRemove (blocks s5)\<rparr>;
             s7 = (if timeElapsed s6 \<ge> duration s6 then endGame s6 else s6);
             s8 = updateScoreEffects dt s7
         in s8\<lparr>effects := updateEffects_loop dt (length (effects s8)) (effects s8)\<rparr>))"

text \<open>
  The pattern entries handed to \<open>spawnBlockOfType\<close> by one call of \<open>update\<close>, in call
  order: none when the session is over or spawns at random.
\<close>

definition update_emitted :: "real \<Rightarrow> Game \<Rightarrow> Note list" where
  "update_emitted dt s =
     (if gameOver s \<or> \<not> usePattern s then []
      else snd (spawn_loop (advance_clock dt s, [])))"

text \<open>The frame driver calls \<open>update\<close> once per tick; a run is a list of the \<open>dt\<close> values.\<close>

fun run_updates :: "real list \<Rightarrow> Game \<Rightarrow> Game" where
  "run_updates [] s = s"
| "run_updates (dt # dts) s = run_updates dts (GameScene_update dt s)"


section \<open>editorScene.js\<close>

text \<open>
  \<open>Number.prototype.toFixed(2)\<close> followed by \<open>parseFloat\<close>: the nearest multiple of
  0.01, a tie going away from zero.
\<close>

definition toFixed2 :: "real \<Rightarrow> real" where
  "toFixed2 v =
     (if v < 0 then - (real_of_int \<lfloor>- v * 100 + 1 / 2\<rfloor> / 100)
      else real_of_int \<lfloor>v * 100 + 1 / 2\<rfloor> / 100)"

text \<open>The two coordinate transforms of the timeline, as written in the handlers and in \<open>render\<close>.\<close>

definition timeOfLocalY :: "real \<Rightarrow> real \<Rightarrow> real \<Rightarrow> real" where
  "timeOfLocalY pps off localY = (off + localY) / pps"

definition localYOfTime :: "real \<Rightarrow> real \<Rightarrow> real \<Rightarrow> real" where
  "localYOfTime pps off t = t * pps - off"

record Box =
  bx_x :: real
  bx_y :: real
  bx_w :: real
  bx_h :: real

text \<open>\<open>this.bounds\<close>: every entry is undefined (\<open>None\<close>) until \<open>render\<close> has run.\<close>

record Bounds =
  bd_songPrev :: "Box option"
  bd_songNext :: "Box option"
  bd_blockBoxes :: "Box list option"
  bd_delete :: "Box option"
  bd_track :: "Box option"
  bd_noteBoxes :: "Box list option"
  bd_scrollUp :: "Box option"
  bd_scrollDown :: "Box option"
  bd_scrollHandle :: "Box option"
  bd_save :: "Box option"
  bd_test :: "Box option"
  bd_back :: "Box option"

text \<open>
  Note objects live in a store: the editor's array and a level's array hold references, and
  \<open>slice\<close> copies the references only, so a note dragged in the editor is the very object
  of the level it was loaded from.
\<close>

type_synonym ref = nat

record Level =
  lv_title :: string
  lv_file :: string
  lv_duration :: real
  lv_spawns :: "ref list option"

datatype SceneRequest = ToGameScene Song | ToMenuScene

record Editor =
  ed_canvas :: Canvas
  levels :: "Level list"
  currentLevelIndex :: nat
  pxPerSecond :: real
  scrollOffset :: real
  selectedBlockType :: int
  ed_spawns :: "ref list"
  outputText :: "(bool \<times> Note list) option"
  deleteMode :: bool
  bounds :: Bounds
  scrollHandleDragging :: bool
  scrollHandleOffset :: real
  dragging :: bool
  dragNoteIndex :: "nat option"
  headerHeight :: real
  footerHeight :: real
  marginX :: real
  scaleWidth :: real
  scrollBarWidth :: real
  viewportX :: real
  viewportY :: real
  viewportWidth :: real
  viewportHeight :: real
  scrollBarX :: real
  timelineHeightPx :: real
  heap :: "ref \<Rightarrow> Note"
  nextRef :: ref
  storage :: "string \<Rightarrow> Note list option"
  fsWritable :: bool
  requestedScene :: "SceneRequest option"

text \<open>Fresh objects for a list of note values (a level module's literal, a stored pattern).\<close>

fun alloc_notes :: "Note list \<Rightarrow> (ref \<Rightarrow> Note) \<Rightarrow> ref \<Rightarrow> ref list \<times> (ref \<Rightarrow> Note) \<times> ref" where
  "alloc_notes [] h n = ([], h, n)"
| "alloc_notes (v # vs) h n =
     (let (rs, h', n') = alloc_notes vs (h(n := v)) (Suc n) in (n # rs, h', n'))"

text \<open>\<open>this.spawns.sort((a, b) => a.time - b.time)\<close>: a stable sort on the time.\<close>

definition sortSpawns :: "(ref \<Rightarrow> Note) \<Rightarrow> ref list \<Rightarrow> ref list" where
  "sortSpawns h rs = sort_key (\<lambda>r. n_time (h r)) rs"

definition updateLevelData :: "Editor \<Rightarrow> Editor" where
  "updateLevelData s =
     (let level = levels s ! currentLevelIndex s;
          spawns0 = (case lv_spawns level of Some rs \<Rightarrow> rs | None \<Rightarrow> []);
          (spawns1, h, n) =
            (case storage s (''spawns_'' @ lv_title level) of
               Some saved \<Rightarrow> alloc_notes saved (heap s) (nextRef s)
             | None \<Rightarrow> (spawns0, heap s, nextRef s))
      in s\<lparr>heap := h, nextRef := n, ed_spawns := sortSpawns h spawns1,
            scrollOffset := 0, outputText := None\<rparr>)"

text \<open>
  The constructor. The level list stands for the modules \<open>levels/song1\<close> and
  \<open>levels/song2\<close>, given by their values; their note objects are placed in the store. The
  layout fields are assigned by \<open>computeLayout\<close> before they are ever read.
\<close>

fun load_levels :: "Song list \<Rightarrow> (ref \<Rightarrow> Note) \<Rightarrow> ref \<Rightarrow> Level list \<times> (ref \<Rightarrow> Note) \<times> ref" where
  "load_levels [] h n = ([], h, n)"
| "load_levels (sg # sgs) h n =
     (let (rs, h1, n1) =
            (case sg_spawns sg of
               None \<Rightarrow> (None, h, n)
             | Some vs \<Rightarrow> (let (rs, h', n') = alloc_notes vs h n in (Some rs, h', n')));
          (ls, h2, n2) = load_levels sgs h1 n1
      in (\<lparr>lv_title = sg_title sg, lv_file = sg_file sg, lv_duration = sg_duration sg,
            lv_spawns = rs\<rparr> # ls, h2, n2))"

definition no_bounds :: Bounds where
  "no_bounds =
     \<lparr>bd_songPrev = None, bd_songNext = None, bd_blockBoxes = None, bd_delete = None,
      bd_track = None, bd_noteBoxes = None, bd_scrollUp = None, bd_scrollDown = None,
      bd_scrollHandle = None, bd_save = None, bd_test = None, bd_back = None\<rparr>"

definition EditorScene_new ::
  "Canvas \<Rightarrow> Song list \<Rightarrow> (string \<Rightarrow> Note list option) \<Rightarrow> bool \<Rightarrow> Editor" where
  "EditorScene_new cv modules st fs =
     (let (ls, h, n) = load_levels modules (\<lambda>r. \<lparr>n_time = 0, n_type = 0, n_lane = 0\<rparr>) 0
      in updateLevelData
           \<lparr>ed_canvas = cv, levels = ls, currentLevelIndex = 0, pxPerSecond = 50,
            scrollOffset = 0, selectedBlockType = 0, ed_spawns = [], outputText = None,
            deleteMode = False, bounds = no_bounds, scrollHandleDragging = False,
            scrollHandleOffset = 0, dragging = False, dragNoteIndex = None,
            headerHeight = 0, footerHeight = 0, marginX = 0, scaleWidth = 0,
            scrollBarWidth = 0, viewportX = 0, viewportY = 0, viewportWidth = 0,
            viewportHeight = 0, scrollBarX = 0, timelineHeightPx = 0,
            heap = h, nextRef = n, storage = st, fsWritable = fs, requestedScene = None\<rparr>)"

definition maxScroll :: "Editor \<Rightarrow> real" where
  "maxScroll s = max 0 (timelineHeightPx s - viewportHeight s)"

definition computeLayout :: "Editor \<Rightarrow> Editor" where
  "computeLayout s =
     (let width = cv_width (ed_canvas s);
          height = cv_height (ed_canvas s);
          s1 = s\<lparr>headerHeight := 200, footerHeight := 80, marginX := 20, scaleWidth := 60,
                 scrollBarWidth := 24\<rparr>;
          s2 = s1\<lparr>viewportX := marginX s1 + scaleWidth s1, viewportY := headerHeight s1,
                  viewportWidth :=
                    width - marginX s1 * 2 - scaleWidth s1 - scrollBarWidth s1 - 10,
                  viewportHeight := height - headerHeight s1 - footerHeight s1\<rparr>;
          s3 = s2\<lparr>scrollBarX := viewportX s2 + viewportWidth s2 + 10\<rparr>;
          level = levels s3 ! currentLevelIndex s3;
          s4 = s3\<lparr>timelineHeightPx := lv_duration level * pxPerSecond s3\<rparr>;
          s5 = s4\<lparr>scrollOffset := min (scrollOffset s4) (maxScroll s4)\<rparr>
      in s5\<lparr>scrollOffset := max (scrollOffset s5) 0\<rparr>)"

definition prevSong :: "Editor \<Rightarrow> Editor" where
  "prevSong s =
     updateLevelData
       (s\<lparr>currentLevelIndex :=
            nat ((int (currentLevelIndex s) - 1 + int (length (levels s))) mod
                 int (length (levels s)))\<rparr>)"

definition nextSong :: "Editor \<Rightarrow> Editor" where
  "nextSong s =
     updateLevelData
       (s\<lparr>currentLevelIndex := (currentLevelIndex s + 1) mod length (levels s)\<rparr>)"

definition scrollUp :: "Editor \<Rightarrow> Editor" where
  "scrollUp s = s\<lparr>scrollOffset := max 0 (scrollOffset s - viewportHeight s * (1 / 2))\<rparr>"

definition scrollDown :: "Editor \<Rightarrow> Editor" where
  "scrollDown s =
     s\<lparr>scrollOffset := min (maxScroll s) (scrollOffset s + viewportHeight s * (1 / 2))\<rparr>"

text \<open>
  \<open>saveSpawns\<close>: the pattern is sorted, handed to the level (the same note objects), copied
  into the storage under the level's title, and shown as text. The text is kept as the note
  values it prints and a flag telling whether the line naming the written file precedes them.
\<close>

definition saveSpawns :: "Editor \<Rightarrow> Editor" where
  "saveSpawns s =
     (let sorted_spawns = sortSpawns (heap s) (ed_spawns s);
          level = levels s ! currentLevelIndex s;
          vals = map (heap s) sorted_spawns
      in s\<lparr>ed_spawns := sorted_spawns,
            storage := (storage s)(''spawns_'' @ lv_title level := Some vals),
            levels := (levels s)[currentLevelIndex s := level\<lparr>lv_spawns := Some sorted_spawns\<rparr>],
            outputText := Some (fsWritable s, vals)\<rparr>)"

definition playTest :: "Editor \<Rightarrow> Editor" where
  "playTest s =
     (let level = levels s ! currentLevelIndex s;
          song = \<lparr>sg_title = lv_title level, sg_file = lv_file level,
                  sg_duration = lv_duration level,
                  sg_spawns = Some (map (heap s) (ed_spawns s))\<rparr>
      in s\<lparr>requestedScene := Some (ToGameScene song)\<rparr>)"

definition goBack :: "Editor \<Rightarrow> Editor" where
  "goBack s = s\<lparr>requestedScene := Some ToMenuScene\<rparr>"

definition hitBox :: "Box option \<Rightarrow> real \<Rightarrow> real \<Rightarrow> bool" where
  "hitBox box x y =
     (case box of
        None \<Rightarrow> False
      | Some b \<Rightarrow> x \<ge> bx_x b \<and> x \<le> bx_x b + bx_w b \<and> y \<ge> bx_y b \<and> y \<le> bx_y b + bx_h b)"

text \<open>The index of the first element that passes a test: a \<open>for\<close> loop left at the first match.\<close>

fun firstIndex :: "('a \<Rightarrow> bool) \<Rightarrow> 'a list \<Rightarrow> nat option" where
  "firstIndex P [] = None"
| "firstIndex P (v # vs) = (if P v then Some 0 else map_option Suc (firstIndex P vs))"

definition firstBoxHit :: "Box list option \<Rightarrow> real \<Rightarrow> real \<Rightarrow> nat option" where
  "firstBoxHit boxes x y =
     (case boxes of None \<Rightarrow> None | Some bs \<Rightarrow> firstIndex (\<lambda>b. hitBox (Some b) x y) bs)"

text \<open>
  What a pointer-down at \<open>(x, y)\<close> lands on: the tests of \<open>onTouchStart\<close> in their order,
  each returning from the handler when it passes.
\<close>

datatype Target =
  OnScrollHandle | OnNote nat | OnSongPrev | OnSongNext | OnBlockType nat | OnDelete
  | OnScrollUp | OnScrollDown | OnSave | OnTest | OnBack | OnTrack | OnNothing

definition hitTarget :: "Bounds \<Rightarrow> real \<Rightarrow> real \<Rightarrow> Target" where
  "hitTarget b x y =
     (if hitBox (bd_scrollHandle b) x y then OnScrollHandle
      else case firstBoxHit (bd_noteBoxes b) x y of
        Some i \<Rightarrow> OnNote i
      | None \<Rightarrow>
         (if hitBox (bd_songPrev b) x y then OnSongPrev
          else if hitBox (bd_songNext b) x y then OnSongNext
          else case firstBoxHit (bd_blockBoxes b) x y of
            Some i \<Rightarrow> OnBlockType i
          | None \<Rightarrow>
             (if hitBox (bd_delete b) x y then OnDelete
              else if hitBox (bd_scrollUp b) x y then OnScrollUp
              else if hitBox (bd_scrollDown b) x y then OnScrollDown
              else if hitBox (bd_save b) x y then OnSave
              else if hitBox (bd_test b) x y then OnTest
              else if hitBox (bd_back b) x y then OnBack
              else if hitBox (bd_track b) x y then OnTrack
              else OnNothing)))"

text \<open>Time and lane under the pointer, as both handlers compute them after \<open>computeLayout\<close>.\<close>

definition pointerTime :: "Editor \<Rightarrow> real \<Rightarrow> real" where
  "pointerTime s y =
     (let localY = y - viewportY s in timeOfLocalY (pxPerSecond s) (scrollOffset s) localY)"

definition pointerLane :: "Editor \<Rightarrow> real \<Rightarrow> int" where
  "pointerLane s x =
     (let laneCount = int numLanes;
          laneWidth = viewportWidth s / real numLanes;
          localX = x - viewportX s;
          lane = \<lfloor>localX / laneWidth\<rfloor>;
          lane1 = (if lane < 0 then 0 else lane)
      in if lane1 \<ge> laneCount then laneCount - 1 else lane1)"

text \<open>The test of the removal loop: same lane, and within 10 pixels' worth of time.\<close>

definition nearNote :: "Editor \<Rightarrow> int \<Rightarrow> real \<Rightarrow> ref \<Rightarrow> bool" where
  "nearNote s lane time r =
     (let thresholdPx = 10;
          thresholdTime = thresholdPx / pxPerSecond s
      in n_lane (heap s r) = lane \<and> \<bar>n_time (heap s r) - time\<bar> \<le> thresholdTime)"

definition trackTap :: "real \<Rightarrow> real \<Rightarrow> Editor \<Rightarrow> Editor" where
  "trackTap x y s =
     (let time = pointerTime s y;
          level = levels s ! currentLevelIndex s
      in if time < 0 \<or> time > lv_duration level then s
         else
           (let lane = pointerLane s x
            in case firstIndex (nearNote s lane time) (ed_spawns s) of
                 Some i \<Rightarrow> s\<lparr>ed_spawns := splice1 i (ed_spawns s)\<rparr>
               | None \<Rightarrow>
                  (if deleteMode s then s
                   else
                     (let roundedTime = toFixed2 time;
                          r = nextRef s;
                          h = (heap s)(r := \<lparr>n_time = roundedTime, n_type = selectedBlockType s,
                                              n_lane = lane\<rparr>)
                      in s\<lparr>heap := h, nextRef := Suc r,
                            ed_spawns := sortSpawns h (ed_spawns s @ [r])\<rparr>))))"

definition onTouchStart :: "real \<Rightarrow> real \<Rightarrow> Editor \<Rightarrow> Editor" where
  "onTouchStart x y s0 =
     (let s = computeLayout s0
      in case hitTarget (bounds s) x y of
           OnScrollHandle \<Rightarrow>
             (case bd_scrollHandle (bounds s) of
                None \<Rightarrow> s
              | Some handle \<Rightarrow>
                  s\<lparr>scrollHandleDragging := True, scrollHandleOffset := y - bx_y handle\<rparr>)
         | OnNote i \<Rightarrow> s\<lparr>dragging := True, dragNoteIndex := Some i\<rparr>
         | OnSongPrev \<Rightarrow> prevSong s
         | OnSongNext \<Rightarrow> nextSong s
         | OnBlockType i \<Rightarrow> s\<lparr>selectedBlockType := int i\<rparr>
         | OnDelete \<Rightarrow> s\<lparr>deleteMode := \<not> deleteMode s\<rparr>
         | OnScrollUp \<Rightarrow> scrollUp s
         | OnScrollDown \<Rightarrow> scrollDown s
         | OnSave \<Rightarrow> saveSpawns s
         | OnTest \<Rightarrow> playTest s
         | OnBack \<Rightarrow> goBack s
         | OnTrack \<Rightarrow> trackTap x y s
         | OnNothing \<Rightarrow> s)"

text \<open>
  \<open>onTouchMove\<close>. While the scroll handle is dragged the handler reads
  \<open>this.bounds.scrollHandle.h\<close>; the flag is only ever set by a pointer-down that hit that
  box, so the box exists (without it the handler would stop with a TypeError at that line,
  which is the \<open>None\<close> case). A note drag whose index names no entry of the pattern returns
  after \<open>computeLayout\<close>.
\<close>

definition onTouchMove :: "real \<Rightarrow> real \<Rightarrow> Editor \<Rightarrow> Editor" where
  "onTouchMove x y s0 =
     (if scrollHandleDragging s0 then
        (let s = computeLayout s0;
             trackY = viewportY s;
             trackH = viewportHeight s;
             arrowH = 24
         in if maxScroll s > 0 then
              (case bd_scrollHandle (bounds s) of
                 None \<Rightarrow> s
               | Some handle \<Rightarrow>
                  (let handleHeight = bx_h handle;
                       minY = trackY + arrowH;
                       maxY = trackY + trackH - arrowH - handleHeight;
                       handleY = max minY (min maxY (y - scrollHandleOffset s));
                       ratio = (handleY - minY) / (maxY - minY)
                   in s\<lparr>scrollOffset := ratio * maxScroll s\<rparr>))
            else s)
      else if \<not> dragging s0 then s0
      else
        (let s = computeLayout s0
         in case dragNoteIndex s of
              None \<Rightarrow> s
            | Some i \<Rightarrow>
               (if i \<ge> length (ed_spawns s) then s
                else
                  (let r = ed_spawns s ! i;
                       level = levels s ! currentLevelIndex s;
                       newTime = max 0 (min (lv_duration level) (pointerTime s y));
                       lane = pointerLane s x
                   in s\<lparr>heap := (heap s)(r := (heap s r)\<lparr>n_time := toFixed2 newTime,
                                                           n_lane := lane\<rparr>)\<rparr>))))"

definition onTouchEnd :: "Editor \<Rightarrow> Editor" where
  "onTouchEnd s =
     (if scrollHandleDragging s then s\<lparr>scrollHandleDragging := False\<rparr>
      else if dragging s then
        s\<lparr>dragging := False, dragNoteIndex := None,
          ed_spawns := sortSpawns (heap s) (ed_spawns s)\<rparr>
      else s)"

text \<open>
  \<open>render\<close>, as far as it changes the scene: the layout and the hit boxes. A note is
  drawn, and gets a box, when its \<open>y\<close> lies within 20 pixels of the track; its colour comes
  from \<open>config.blockTypes[note.type] || config.blockTypes[0]\<close>.
\<close>

definition noteTypeDef :: "int \<Rightarrow> BlockType" where
  "noteTypeDef ty =
     (if 0 \<le> ty \<and> ty < int (length blockTypes) then blockTypes ! nat ty else blockTypes ! 0)"

definition drawNote :: "Editor \<Rightarrow> Note \<Rightarrow> (string \<times> Box) option" where
  "drawNote s note =
     (let trackX = viewportX s;
          trackY = viewportY s;
          trackW = viewportWidth s;
          trackH = viewportHeight s;
          laneWidth = trackW / real numLanes;
          noteY = trackY + localYOfTime (pxPerSecond s) (scrollOffset s) (n_time note)
      in if noteY < trackY - 20 \<or> noteY > trackY + trackH + 20 then None
         else
           (let noteW = max 28 (laneWidth * (6 / 10));
                noteH = 16;
                noteX = trackX + laneWidth * real_of_int (n_lane note) + (laneWidth - noteW) / 2;
                typeDef = noteTypeDef (n_type note)
            in Some (bt_color typeDef,
                     \<lparr>bx_x = noteX, bx_y = noteY - noteH / 2, bx_w = noteW, bx_h = noteH\<rparr>)))"

definition drawnNotes :: "Editor \<Rightarrow> (string \<times> Box) list" where
  "drawnNotes s = List.map_filter (\<lambda>r. drawNote s (heap s r)) (ed_spawns s)"

definition scrollHandleBox :: "Editor \<Rightarrow> Box" where
  "scrollHandleBox s =
     (let trackY = viewportY s;
          trackH = viewportHeight s;
          arrowH = 24;
          arrowW = scrollBarWidth s;
          scrollBarHeight = trackH - arrowH * 2;
          handleHeight0 =
            (if maxScroll s > 0 then viewportHeight s / timelineHeightPx s * scrollBarHeight
             else scrollBarHeight);
          handleHeight = max 30 handleHeight0;
          minHandleY = trackY + arrowH;
          maxHandleY = trackY + trackH - arrowH - handleHeight;
          handleY =
            (if maxScroll s > 0
             then minHandleY + scrollOffset s / maxScroll s * (maxHandleY - minHandleY)
             else minHandleY)
      in \<lparr>bx_x = scrollBarX s, bx_y = handleY, bx_w = arrowW, bx_h = handleHeight\<rparr>)"

definition render :: "Editor \<Rightarrow> Editor" where
  "render s0 =
     (let s = computeLayout s0;
          width = cv_width (ed_canvas s);
          height = cv_height (ed_canvas s);
          songY = 75;
          songBoxW = 200;
          songBoxH = 32;
          songBoxX = (width - songBoxW) / 2;
          blockY = 110;
          blockSize = 40;
          spacing = 20;
          totalW = real (length blockTypes) * blockSize + (real (length blockTypes) - 1) * spacing;
          startX = (width - totalW) / 2;
          delBtnW = 100;
          delBtnH = 32;
          trackY = viewportY s;
          trackH = viewportHeight s;
          arrowH = 24;
          arrowW = scrollBarWidth s;
          buttonY = height - footerHeight s + 20;
          btnH = 40;
          btnSpacing = 20;
          btnW = min 120 ((width - marginX s * 2 - btnSpacing * 2) / 3);
          saveX = marginX s;
          testX = saveX + btnW + btnSpacing;
          backX = testX + btnW + btnSpacing
      in s\<lparr>bounds :=
            \<lparr>bd_songPrev = Some \<lparr>bx_x = songBoxX, bx_y = songY - songBoxH / 2,
                                  bx_w = songBoxW / 2, bx_h = songBoxH\<rparr>,
             bd_songNext = Some \<lparr>bx_x = songBoxX + songBoxW / 2, bx_y = songY - songBoxH / 2,
                                  bx_w = songBoxW / 2, bx_h = songBoxH\<rparr>,
             bd_blockBoxes =
               Some (map (\<lambda>i. \<lparr>bx_x = startX + real i * (blockSize + spacing), bx_y = blockY,
                                 bx_w = blockSize, bx_h = blockSize\<rparr>)
                       [0..<length blockTypes]),
             bd_delete = Some \<lparr>bx_x = (width - delBtnW) / 2, bx_y = blockY + blockSize + 12,
                                bx_w = delBtnW, bx_h = delBtnH\<rparr>,
             bd_track = Some \<lparr>bx_x = viewportX s, bx_y = trackY, bx_w = viewportWidth s,
                               bx_h = trackH\<rparr>,
             bd_noteBoxes = Some (map snd (drawnNotes s)),
             bd_scrollUp = Some \<lparr>bx_x = scrollBarX s, bx_y = trackY, bx_w = arrowW,
                                  bx_h = arrowH\<rparr>,
             bd_scrollDown = Some \<lparr>bx_x = scrollBarX s, bx_y = trackY + trackH - arrowH,
                                    bx_w = arrowW, bx_h = arrowH\<rparr>,
             bd_scrollHandle = Some (scrollHandleBox s),
             bd_save = Some \<lparr>bx_x = saveX, bx_y = buttonY, bx_w = btnW, bx_h = btnH\<rparr>,
             bd_test = Some \<lparr>bx_x = testX, bx_y = buttonY, bx_w = btnW, bx_h = btnH\<rparr>,
             bd_back = Some \<lparr>bx_x = backX, bx_y = buttonY, bx_w = btnW, bx_h = btnH\<rparr>\<rparr>\<rparr>)"

text \<open>
  What reaches the editor: pointer-down, pointer-move and pointer-up from the input source,
  and the frame tick (\<open>update\<close>, which does nothing, followed by \<open>render\<close>).
\<close>

datatype Event = TouchStart real real | TouchMove real real | TouchEnd | Frame

fun deliver :: "Event \<Rightarrow> Editor \<Rightarrow> Editor" where
  "deliver (TouchStart x y) s = onTouchStart x y s"
| "deliver (TouchMove x y) s = onTouchMove x y s"
| "deliver TouchEnd s = onTouchEnd s"
| "deliver Frame s = render s"

fun deliver_all :: "Event list \<Rightarrow> Editor \<Rightarrow> Editor" where
  "deliver_all [] s = s"
| "deliver_all (e # es) s = deliver_all es (deliver e s)"


section \<open>Predicates and sample sessions used in the proofs\<close>

text \<open>
  Every block of a session takes its type from \<open>config.blockTypes\<close>, none of which
  carries a \<open>score\<close> property: a hit is worth \<open>config.scoring.hit\<close>.
\<close>

definition types_ok :: "Game \<Rightarrow> bool" where
  "types_ok s = (\<forall>b \<in> set (blocks s). bt_score (b_type b) = None)"

text \<open>The fields that the collision loop and the rest of \<open>update\<close> leave alone.\<close>

definition same_frame :: "Game \<Rightarrow> Game \<Rightarrow> bool" where
  "same_frame s s' =
     (spawns s' = spawns s \<and> spawnIndex s' = spawnIndex s \<and> timeElapsed s' = timeElapsed s \<and>
      usePattern s' = usePattern s \<and> duration s' = duration s \<and> gameOver s' = gameOver s \<and>
      g_player s' = g_player s \<and> g_canvas s' = g_canvas s)"



text \<open>What the collision loop does to the score for one block, after the block moved.\<close>

definition resolve_score :: "Player \<Rightarrow> Canvas \<Rightarrow> Block \<Rightarrow> int \<Rightarrow> int" where
  "resolve_score p cv b sc =
     (if hitsPlayer p b then sc + hitPoints b
      else if fallenPast cv b then (if scoring_miss > 0 then max 0 (sc - scoring_miss) else sc)
      else sc)"

definition demo_canvas :: Canvas where
  "demo_canvas = \<lparr>cv_width = 400, cv_height = 600\<rparr>"

definition demo_song :: Song where
  "demo_song =
     \<lparr>sg_title = ''demo'', sg_file = ''assets/audio/demo.wav'', sg_duration = 120,
      sg_spawns = Some [\<lparr>n_time = 0, n_type = 0, n_lane = 0\<rparr>,
                        \<lparr>n_time = 8 / 10, n_type = 1, n_lane = 1\<rparr>,
                        \<lparr>n_time = 16 / 10, n_type = 2, n_lane = 2\<rparr>]\<rparr>"

definition demo_game :: Game where
  "demo_game = GameScene_new demo_canvas demo_song (\<lambda>n. 0)"

text \<open>A one-note session, and its state after a single frame of 3.1 seconds.\<close>

definition miss_song :: Song where
  "miss_song =
     \<lparr>sg_title = ''one note'', sg_file = ''assets/audio/demo.wav'', sg_duration = 120,
      sg_spawns = Some [\<lparr>n_time = 0, n_type = 0, n_lane = 0\<rparr>]\<rparr>"

definition miss_game :: Game where
  "miss_game = GameScene_new demo_canvas miss_song (\<lambda>n. 0)"

definition miss_frame :: Game where
  "miss_frame = GameScene_update (31 / 10) miss_game"




text \<open>
  A sample editor on two levels, the first with one note at second 1 in lane 0, the second
  with an empty pattern; nothing in the storage. \<open>demo_editor\<close> is the editor after its first
  frame, \<open>demo_bounds_value\<close> the hit boxes that frame leaves. \<open>delete_editor\<close> has had a tap
  on the delete-mode button; \<open>stale_editor\<close> a pointer-down on the note and, with no
  pointer-up, one on the next-song arrow.
\<close>

definition level_one :: Song where
  "level_one =
     \<lparr>sg_title = ''one'', sg_file = ''assets/audio/one.wav'', sg_duration = 120,
      sg_spawns = Some [\<lparr>n_time = 1, n_type = 0, n_lane = 0\<rparr>]\<rparr>"

definition level_two :: Song where
  "level_two =
     \<lparr>sg_title = ''two'', sg_file = ''assets/audio/two.wav'', sg_duration = 120,
      sg_spawns = Some []\<rparr>"

definition demo_editor0 :: Editor where
  "demo_editor0 = EditorScene_new demo_canvas [level_one, level_two] (\<lambda>k. None) False"

definition demo_bounds_value :: Bounds where
  "demo_bounds_value =
     \<lparr>bd_songPrev = Some \<lparr>bx_x = 100, bx_y = 59, bx_w = 100, bx_h = 32\<rparr>,
      bd_songNext = Some \<lparr>bx_x = 200, bx_y = 59, bx_w = 100, bx_h = 32\<rparr>,
      bd_blockBoxes = Some [\<lparr>bx_x = 120, bx_y = 110, bx_w = 40, bx_h = 40\<rparr>,
                            \<lparr>bx_x = 180, bx_y = 110, bx_w = 40, bx_h = 40\<rparr>,
                            \<lparr>bx_x = 240, bx_y = 110, bx_w = 40, bx_h = 40\<rparr>],
      bd_delete = Some \<lparr>bx_x = 150, bx_y = 162, bx_w = 100, bx_h = 32\<rparr>,
      bd_track = Some \<lparr>bx_x = 80, bx_y = 200, bx_w = 266, bx_h = 320\<rparr>,
      bd_noteBoxes = Some [\<lparr>bx_x = 529 / 6, bx_y = 242, bx_w = 28, bx_h = 16\<rparr>],
      bd_scrollUp = Some \<lparr>bx_x = 356, bx_y = 200, bx_w = 24, bx_h = 24\<rparr>,
      bd_scrollDown = Some \<lparr>bx_x = 356, bx_y = 496, bx_w = 24, bx_h = 24\<rparr>,
      bd_scrollHandle = Some \<lparr>bx_x = 356, bx_y = 224, bx_w = 24, bx_h = 30\<rparr>,
      bd_save = Some \<lparr>bx_x = 20, bx_y = 540, bx_w = 320 / 3, bx_h = 40\<rparr>,
      bd_test = Some \<lparr>bx_x = 20 + 320 / 3 + 20, bx_y = 540, bx_w = 320 / 3, bx_h = 40\<rparr>,
      bd_back = Some \<lparr>bx_x = 20 + 320 / 3 + 20 + 320 / 3 + 20, bx_y = 540, bx_w = 320 / 3, bx_h = 40\<rparr>\<rparr>"

definition demo_editor :: Editor where
  "demo_editor = render demo_editor0"


definition stale_editor :: Editor where
  "stale_editor = deliver_all [Frame, TouchStart 100 250, TouchStart 250 70] demo_editor0"

text \<open>
  What holds of every editor an event sequence can reach: the references in the pattern and
  in the levels are below the allocation counter, the current level exists, and
  \<open>pxPerSecond\<close> is 50.
\<close>

definition level_refs :: "Level \<Rightarrow> ref list" where
  "level_refs lv = (case lv_spawns lv of None \<Rightarrow> [] | Some rs \<Rightarrow> rs)"

definition editor_inv :: "Editor \<Rightarrow> bool" where
  "editor_inv s =
     ((\<forall>r \<in> set (ed_spawns s). r < nextRef s) \<and>
      (\<forall>lv \<in> set (levels s). \<forall>r \<in> set (level_refs lv). r < nextRef s) \<and>
      currentLevelIndex s < length (levels s) \<and> pxPerSecond s = 50)"

section \<open>Frame lemmas of the spawning helpers\<close>

lemma spawnBlockWithTypeDef_spawns [simp]:
  "spawns (spawnBlockWithTypeDef ty lane s) = spawns s"
  "spawnIndex (spawnBlockWithTypeDef ty lane s) = spawnIndex s"
  by (simp_all add: spawnBlockWithTypeDef_def randomRange_def Math_random_def Let_def
      split: prod.splits)

lemma spawnBlockOfType_spawns [simp]:
  "spawns (spawnBlockOfType ti lane s) = spawns s"
  "spawnIndex (spawnBlockOfType ti lane s) = spawnIndex s"
  by (simp_all add: spawnBlockOfType_def)

lemma collide_step_length [simp]:
  "length (blocks (fst (collide_step dt i st))) = length (blocks (fst st))"
  by (cases st) (simp add: collide_step_def addScoreEffect_def Let_def)

lemma blockTypes_score: "k < length blockTypes \<Longrightarrow> bt_score (blockTypes ! k) = None"
  by (auto simp: blockTypes_def less_Suc_eq nth_Cons')

lemma blockTypes_length: "length blockTypes = 3"
  by (simp add: blockTypes_def)

lemma random_index: "nat \<lfloor>frac r * real (length blockTypes)\<rfloor> < length blockTypes"
proof -
  have "frac r * 3 < 3" "0 \<le> frac r * 3"
    using frac_lt_1 [of r] frac_ge_0 [of r] by auto
  then have "\<lfloor>frac r * 3\<rfloor> < 3" "0 \<le> \<lfloor>frac r * 3\<rfloor>" by (auto simp: floor_less_iff)
  then have "nat \<lfloor>frac r * 3\<rfloor> < 3" by linarith
  then show ?thesis by (simp add: blockTypes_length)
qed

lemma spawnBlockWithTypeDef_fields [simp]:
  "score (spawnBlockWithTypeDef ty lane s) = score s"
  "misses (spawnBlockWithTypeDef ty lane s) = misses s"
  "gameOver (spawnBlockWithTypeDef ty lane s) = gameOver s"
  "timeElapsed (spawnBlockWithTypeDef ty lane s) = timeElapsed s"
  "duration (spawnBlockWithTypeDef ty lane s) = duration s"
  "usePattern (spawnBlockWithTypeDef ty lane s) = usePattern s"
  "g_player (spawnBlockWithTypeDef ty lane s) = g_player s"
  "g_canvas (spawnBlockWithTypeDef ty lane s) = g_canvas s"
  by (simp_all add: spawnBlockWithTypeDef_def randomRange_def Math_random_def Let_def
      split: prod.splits)

lemma spawnBlockWithTypeDef_blocks:
  "\<exists>b. blocks (spawnBlockWithTypeDef ty lane s) = blocks s @ [b] \<and> b_type b = ty"
  by (simp add: spawnBlockWithTypeDef_def randomRange_def Math_random_def Let_def Block_new_def
      split: prod.splits)

lemma spawnBlockWithTypeDef_types_ok:
  "types_ok s \<Longrightarrow> bt_score ty = None \<Longrightarrow> types_ok (spawnBlockWithTypeDef ty lane s)"
  using spawnBlockWithTypeDef_blocks [of ty lane s] by (auto simp: types_ok_def)

lemma spawnBlockOfType_fields [simp]:
  "score (spawnBlockOfType ti lane s) = score s"
  "misses (spawnBlockOfType ti lane s) = misses s"
  "gameOver (spawnBlockOfType ti lane s) = gameOver s"
  "timeElapsed (spawnBlockOfType ti lane s) = timeElapsed s"
  "duration (spawnBlockOfType ti lane s) = duration s"
  "usePattern (spawnBlockOfType ti lane s) = usePattern s"
  "g_player (spawnBlockOfType ti lane s) = g_player s"
  "g_canvas (spawnBlockOfType ti lane s) = g_canvas s"
  by (simp_all add: spawnBlockOfType_def)

lemma spawnBlockOfType_types_ok:
  "types_ok s \<Longrightarrow> types_ok (spawnBlockOfType ti lane s)"
  by (auto simp: spawnBlockOfType_def intro!: spawnBlockWithTypeDef_types_ok blockTypes_score)

lemma spawnBlockRandom_fields [simp]:
  "score (spawnBlockRandom s) = score s"
  "misses (spawnBlockRandom s) = misses s"
  "gameOver (spawnBlockRandom s) = gameOver s"
  "timeElapsed (spawnBlockRandom s) = timeElapsed s"
  "duration (spawnBlockRandom s) = duration s"
  "g_player (spawnBlockRandom s) = g_player s"
  "g_canvas (spawnBlockRandom s) = g_canvas s"
  by (simp_all add: spawnBlockRandom_def Math_random_def Let_def split: prod.splits)

lemma spawnBlockRandom_types_ok:
  assumes "types_ok s"
  shows "types_ok (spawnBlockRandom s)"
proof -
  let ?ty = "blockTypes ! nat \<lfloor>frac (rnd s (rndCount s)) * real (length blockTypes)\<rfloor>"
  have ty: "bt_score ?ty = None"
    by (rule blockTypes_score) (rule random_index)
  have "types_ok (s\<lparr>rndCount := Suc (Suc (rndCount s))\<rparr>)"
    using assms by (simp add: types_ok_def)
  from spawnBlockWithTypeDef_types_ok [OF this ty] show ?thesis
    by (simp add: spawnBlockRandom_def Math_random_def Let_def)
qed

lemma spawn_loop_step:
  "spawnIndex s < length (spawns s) \<Longrightarrow> n_time (spawns s ! spawnIndex s) \<le> timeElapsed s \<Longrightarrow>
   spawn_loop (s, em) =
     spawn_loop ((spawnBlockOfType (n_type (spawns s ! spawnIndex s))
                    (n_lane (spawns s ! spawnIndex s)) s)\<lparr>spawnIndex := Suc (spawnIndex s)\<rparr>,
                 em @ [spawns s ! spawnIndex s])"
  by (subst spawn_loop.simps) (simp add: Let_def)

lemma spawn_loop_stop:
  "\<not> (spawnIndex s < length (spawns s) \<and> n_time (spawns s ! spawnIndex s) \<le> timeElapsed s) \<Longrightarrow>
   spawn_loop (s, em) = (s, em)"
  by (subst spawn_loop.simps) auto

lemma spawn_loop_inv:
  "types_ok s \<Longrightarrow>
   types_ok (fst (spawn_loop (s, em))) \<and> score (fst (spawn_loop (s, em))) = score s"
proof (induction "length (spawns s) - spawnIndex s" arbitrary: s em rule: less_induct)
  case less
  show ?case
  proof (cases "spawnIndex s < length (spawns s) \<and> n_time (spawns s ! spawnIndex s) \<le> timeElapsed s")
    case True
    let ?d = "spawns s ! spawnIndex s"
    let ?s1 = "(spawnBlockOfType (n_type ?d) (n_lane ?d) s)\<lparr>spawnIndex := Suc (spawnIndex s)\<rparr>"
    have ok: "types_ok ?s1"
      using less.prems spawnBlockOfType_types_ok [of s] by (simp add: types_ok_def)
    have "length (spawns ?s1) - spawnIndex ?s1 < length (spawns s) - spawnIndex s"
      using True by auto
    from less.hyps [OF this ok, of "em @ [?d]"] show ?thesis
      using True by (simp add: spawn_loop_step)
  next
    case False
    then show ?thesis using less.prems by (simp add: spawn_loop_stop)
  qed
qed

lemma Block_update_type [simp]: "b_type (Block_update dt b) = b_type b"
  by (simp add: Block_update_def Let_def split: option.splits effectKind.splits)

lemma collide_step_inv:
  assumes "i < length (blocks s)" "types_ok s" "0 \<le> score s"
  shows "types_ok (fst (collide_step dt i (s, tr))) \<and> 0 \<le> score (fst (collide_step dt i (s, tr)))"
proof -
  have ty: "bt_score (b_type (blocks s ! i)) = None"
    using assms(1,2) by (simp add: types_ok_def)
  have set: "\<And>b. b \<in> set ((blocks s)[i := Block_update dt (blocks s ! i)]) \<Longrightarrow>
      bt_score (b_type b) = None"
    using assms(2) ty by (auto simp: types_ok_def dest!: set_update_subset_insert [THEN subsetD])
  show ?thesis
    using assms(3) set ty
    by (simp add: collide_step_def Let_def addScoreEffect_def types_ok_def scoring_hit_def
        scoring_miss_def hitPoints_def)
qed

lemma collide_loop_inv:
  "types_ok (fst st) \<Longrightarrow> 0 \<le> score (fst st) \<Longrightarrow>
   types_ok (fst (collide_loop dt i st)) \<and> 0 \<le> score (fst (collide_loop dt i st))"
proof (induction dt i st rule: collide_loop.induct)
  case (1 dt i st)
  show ?case
  proof (cases "i < length (blocks (fst st))")
    case True
    have "types_ok (fst (collide_step dt i st)) \<and> 0 \<le> score (fst (collide_step dt i st))"
      using collide_step_inv [of i "fst st" dt "snd st"] True "1.prems" by simp
    with "1.IH" [OF True] True show ?thesis
      by (simp add: collide_loop.simps [of dt i st])
  next
    case False
    with "1.prems" show ?thesis by (simp add: collide_loop.simps [of dt i st])
  qed
qed

section \<open>The game-over flag freezes the session\<close>

lemma gameOver_update: "gameOver s \<Longrightarrow> GameScene_update dt s = s"
  by (simp add: GameScene_update_def)

lemma gameOver_run: "gameOver s \<Longrightarrow> run_updates dts s = s"
  by (induction dts) (simp_all add: gameOver_update)

lemma gameOver_endGame: "gameOver (endGame s)"
  by (simp add: endGame_def)

text \<open>
  Claim C10. Once \<open>gameOver\<close> is set, a call of \<open>update\<close> returns the state as it was
  (every field: score, misses, blocks, clock, cursor, effects), so does any further sequence
  of calls, and \<open>endGame\<close> on a finished session changes nothing.
\<close>

theorem gameOver_state_frozen:
  "gameOver s \<Longrightarrow>
     GameScene_update dt s = s \<and> run_updates dts s = s \<and> endGame s = s"
  by (simp add: gameOver_update gameOver_run endGame_def)

theorem gameOver_state_frozen_witness:
  "gameOver (endGame demo_game) \<and>
   GameScene_update 1 (endGame demo_game) = endGame demo_game \<and>
   run_updates [1, 2] (endGame demo_game) = endGame demo_game \<and>
   endGame (endGame demo_game) = endGame demo_game"
  using gameOver_state_frozen [of "endGame demo_game" 1 "[1, 2]"]
  by (simp add: gameOver_endGame gameOver_update)

section \<open>The score is never negative\<close>

lemma advance_clock_fields [simp]:
  "score (advance_clock dt s) = score s"
  "blocks (advance_clock dt s) = blocks s"
  "misses (advance_clock dt s) = misses s"
  "spawns (advance_clock dt s) = spawns s"
  "spawnIndex (advance_clock dt s) = spawnIndex s"
  "usePattern (advance_clock dt s) = usePattern s"
  "gameOver (advance_clock dt s) = gameOver s"
  "duration (advance_clock dt s) = duration s"
  "g_canvas (advance_clock dt s) = g_canvas s"
  "g_player (advance_clock dt s) = g_player s"
  "timeElapsed (advance_clock dt s) = timeElapsed s + dt"
  by (simp_all add: advance_clock_def Let_def)

lemma update_spawn_inv:
  assumes "types_ok s"
  shows "types_ok (update_spawn dt s) \<and> score (update_spawn dt s) = score s"
proof -
  have a: "types_ok (advance_clock dt s)"
    using assms by (simp add: types_ok_def)
  show ?thesis
  proof (cases "usePattern s")
    case True
    with spawn_loop_inv [OF a, of "[]"] show ?thesis
      by (simp add: update_spawn_def Let_def)
  next
    case False
    let ?t = "(advance_clock dt s)\<lparr>spawnTimer := spawnTimer (advance_clock dt s) + dt\<rparr>"
    have t: "types_ok ?t" using a by (simp add: types_ok_def)
    have t': "types_ok (?t\<lparr>spawnTimer := spawnTimer ?t - spawnInterval ?t\<rparr>)"
      using a by (simp add: types_ok_def)
    show ?thesis
      using False t spawnBlockRandom_types_ok [OF t']
      by (simp add: update_spawn_def Let_def)
  qed
qed

lemma splice1_subset: "set (splice1 i xs) \<subseteq> set xs"
  unfolding splice1_def using set_take_subset [of i xs] set_drop_subset [of "Suc i" xs] by auto

lemma remove_blocks_subset: "set (remove_blocks tr bs) \<subseteq> set bs"
proof -
  have "set (fold splice1 is bs) \<subseteq> set bs" for "is"
  proof (induction "is" arbitrary: bs)
    case Nil
    show ?case by simp
  next
    case (Cons i "is")
    have "set (fold splice1 is (splice1 i bs)) \<subseteq> set (splice1 i bs)" by (rule Cons.IH)
    with splice1_subset [of i bs] show ?case by auto
  qed
  then show ?thesis by (simp add: remove_blocks_def)
qed

lemma update_inv:
  assumes "types_ok s" "0 \<le> score s"
  shows "types_ok (GameScene_update dt s) \<and> 0 \<le> score (GameScene_update dt s)"
proof (cases "gameOver s")
  case True
  with assms show ?thesis by (simp add: GameScene_update_def)
next
  case False
  let ?s4 = "before_collisions dt s"
  obtain s5 tr where c: "collide_loop dt 0 (?s4, []) = (s5, tr)" by (cases "collide_loop dt 0 (?s4, [])")
  have s4: "types_ok ?s4 \<and> 0 \<le> score ?s4"
    using update_spawn_inv [OF assms(1), of dt] assms(2)
    by (simp add: before_collisions_def Let_def types_ok_def)
  have s5: "types_ok s5 \<and> 0 \<le> score s5"
    using collide_loop_inv [of "(?s4, [])" dt 0] s4 c by simp
  have s6: "types_ok (s5\<lparr>blocks := remove_blocks tr (blocks s5)\<rparr>)"
    using s5 remove_blocks_subset [of tr "blocks s5"] by (auto simp: types_ok_def)
  show ?thesis
    using False c s5 s6
    by (simp add: GameScene_update_def Let_def endGame_def updateScoreEffects_def types_ok_def)
qed

lemma new_inv: "types_ok (GameScene_new cv sg r) \<and> 0 \<le> score (GameScene_new cv sg r)"
  by (simp add: GameScene_new_def Let_def types_ok_def)

lemma run_inv:
  "types_ok s \<Longrightarrow> 0 \<le> score s \<Longrightarrow>
   types_ok (run_updates dts s) \<and> 0 \<le> score (run_updates dts s)"
proof (induction dts arbitrary: s)
  case Nil
  then show ?case by simp
next
  case (Cons dt dts)
  from update_inv [OF Cons.prems, of dt] Cons.IH [of "GameScene_update dt s"]
  show ?case by simp
qed

text \<open>
  Claim C3. A session starts with score 0; after any sequence of \<open>update\<close> calls, whatever
  the frame times, the score is not negative: a hit adds the point value of the block's type
  (1 for every configured type), a miss subtracts the penalty and floors the result at 0.
\<close>

theorem score_never_negative:
  "0 \<le> score (run_updates dts (GameScene_new cv sg r))"
  using run_inv [of "GameScene_new cv sg r" dts] new_inv [of cv sg r] by simp

theorem score_never_negative_witness:
  "0 \<le> score (run_updates [31 / 10, 1] demo_game)"
  using score_never_negative [of "[31 / 10, 1]" demo_canvas demo_song "\<lambda>n. 0"]
  by (simp add: demo_game_def)

section \<open>The spawn scheduler\<close>

lemma same_frame_refl [simp]: "same_frame s s"
  by (simp add: same_frame_def)

lemma same_frame_trans: "same_frame s t \<Longrightarrow> same_frame t u \<Longrightarrow> same_frame s u"
  by (simp add: same_frame_def)

lemma collide_step_frame: "same_frame s (fst (collide_step dt i (s, tr)))"
  by (simp add: collide_step_def Let_def addScoreEffect_def same_frame_def)

lemma collide_loop_frame: "same_frame (fst st) (fst (collide_loop dt i st))"
proof (induction dt i st rule: collide_loop.induct)
  case (1 dt i st)
  show ?case
  proof (cases "i < length (blocks (fst st))")
    case True
    have "same_frame (fst st) (fst (collide_step dt i st))"
      using collide_step_frame [of "fst st" dt i "snd st"] by simp
    from same_frame_trans [OF this "1.IH" [OF True]] True show ?thesis
      by (simp add: collide_loop.simps [of dt i st])
  next
    case False
    then show ?thesis by (simp add: collide_loop.simps [of dt i st])
  qed
qed














text \<open>
  Emission and blocks: in one call, the blocks added by the spawn step are one per emitted
  entry whose type index is in range, in emission order and of the entry's type.
\<close>

lemma spawnBlockOfType_blocks:
  "\<exists>bs. blocks (spawnBlockOfType ty lane s) = blocks s @ bs \<and>
        map b_type bs =
          (if 0 \<le> ty \<and> ty < int (length blockTypes) then [blockTypes ! nat ty] else [])"
proof (cases "0 \<le> ty \<and> ty < int (length blockTypes)")
  case True
  from spawnBlockWithTypeDef_blocks [of "blockTypes ! nat ty" lane s] obtain b where
    "blocks (spawnBlockWithTypeDef (blockTypes ! nat ty) lane s) = blocks s @ [b]"
    "b_type b = blockTypes ! nat ty" by auto
  with True show ?thesis
    by (intro exI [of _ "[b]"]) (simp add: spawnBlockOfType_def not_less [symmetric])
next
  case False
  then show ?thesis by (intro exI [of _ "[]"]) (auto simp: spawnBlockOfType_def)
qed

lemma spawn_loop_blocks:
  "\<exists>new bs. snd (spawn_loop (s, em)) = em @ new \<and>
     blocks (fst (spawn_loop (s, em))) = blocks s @ bs \<and>
     map b_type bs =
       map (\<lambda>e. blockTypes ! nat (n_type e))
         (filter (\<lambda>e. 0 \<le> n_type e \<and> n_type e < int (length blockTypes)) new)"
proof (induction "length (spawns s) - spawnIndex s" arbitrary: s em rule: less_induct)
  case less
  show ?case
  proof (cases "spawnIndex s < length (spawns s) \<and> n_time (spawns s ! spawnIndex s) \<le> timeElapsed s")
    case True
    let ?d = "spawns s ! spawnIndex s"
    let ?t = "spawnBlockOfType (n_type ?d) (n_lane ?d) s"
    let ?s1 = "?t\<lparr>spawnIndex := Suc (spawnIndex s)\<rparr>"
    have m: "length (spawns ?s1) - spawnIndex ?s1 < length (spawns s) - spawnIndex s"
      using True by auto
    from less.hyps [OF m, of "em @ [?d]"] obtain new bs where
      n: "snd (spawn_loop (?s1, em @ [?d])) = (em @ [?d]) @ new"
         "blocks (fst (spawn_loop (?s1, em @ [?d]))) = blocks ?s1 @ bs"
         "map b_type bs = map (\<lambda>e. blockTypes ! nat (n_type e))
            (filter (\<lambda>e. 0 \<le> n_type e \<and> n_type e < int (length blockTypes)) new)"
      by blast
    from spawnBlockOfType_blocks [of "n_type ?d" "n_lane ?d" s] obtain b1 where
      b: "blocks ?t = blocks s @ b1"
         "map b_type b1 = (if 0 \<le> n_type ?d \<and> n_type ?d < int (length blockTypes)
                           then [blockTypes ! nat (n_type ?d)] else [])"
      by blast
    show ?thesis
      apply (rule exI [of _ "?d # new"], rule exI [of _ "b1 @ bs"])
      using True n b by (simp add: spawn_loop_step)
  next
    case False
    then show ?thesis
      by (intro exI [of _ "[]"]) (simp add: spawn_loop_stop)
  qed
qed

lemma update_spawn_blocks:
  assumes "usePattern s" "\<not> gameOver s"
  shows "\<exists>bs. blocks (update_spawn dt s) = blocks s @ bs \<and>
     map b_type bs =
       map (\<lambda>e. blockTypes ! nat (n_type e))
         (filter (\<lambda>e. 0 \<le> n_type e \<and> n_type e < int (length blockTypes))
            (update_emitted dt s))"
  using spawn_loop_blocks [of "advance_clock dt s" "[]"] assms
  by (simp add: update_spawn_def update_emitted_def Let_def)

section \<open>Collisions and misses\<close>

lemma collide_step_char:
  "blocks (fst (collide_step dt i (s, tr))) = (blocks s)[i := Block_update dt (blocks s ! i)] \<and>
   snd (collide_step dt i (s, tr)) =
     tr @ (if hitsPlayer (g_player s) (Block_update dt (blocks s ! i)) \<or>
              fallenPast (g_canvas s) (Block_update dt (blocks s ! i)) then [i] else []) \<and>
   misses (fst (collide_step dt i (s, tr))) =
     misses s + (if \<not> hitsPlayer (g_player s) (Block_update dt (blocks s ! i)) \<and>
                    fallenPast (g_canvas s) (Block_update dt (blocks s ! i)) then 1 else 0) \<and>
   score (fst (collide_step dt i (s, tr))) =
     resolve_score (g_player s) (g_canvas s) (Block_update dt (blocks s ! i)) (score s)"
  by (simp add: collide_step_def Let_def addScoreEffect_def resolve_score_def)

lemma collide_loop_char:
  assumes "i \<le> length (blocks s)"
  shows "blocks (fst (collide_loop dt i (s, tr))) =
           take i (blocks s) @ map (Block_update dt) (drop i (blocks s)) \<and>
         snd (collide_loop dt i (s, tr)) =
           tr @ filter (\<lambda>j. hitsPlayer (g_player s) (Block_update dt (blocks s ! j)) \<or>
                          fallenPast (g_canvas s) (Block_update dt (blocks s ! j)))
                  [i..<length (blocks s)] \<and>
         misses (fst (collide_loop dt i (s, tr))) =
           misses s + int (length (filter (\<lambda>b. \<not> hitsPlayer (g_player s) b \<and> fallenPast (g_canvas s) b)
                                     (map (Block_update dt) (drop i (blocks s))))) \<and>
         score (fst (collide_loop dt i (s, tr))) =
           fold (resolve_score (g_player s) (g_canvas s))
             (map (Block_update dt) (drop i (blocks s))) (score s)"
  using assms
proof (induction "length (blocks s) - i" arbitrary: i s tr rule: less_induct)
  case less
  show ?case
  proof (cases "i < length (blocks s)")
    case False
    have "collide_loop dt i (s, tr) = (s, tr)"
      using False by (subst collide_loop.simps) simp
    with False less.prems show ?thesis by simp
  next
    case True
    let ?b = "Block_update dt (blocks s ! i)"
    obtain s1 tr1 where st: "collide_step dt i (s, tr) = (s1, tr1)"
      by (cases "collide_step dt i (s, tr)")
    note c = collide_step_char [of dt i s tr, unfolded st fst_conv snd_conv]
    have fr: "g_player s1 = g_player s" "g_canvas s1 = g_canvas s"
      using collide_step_frame [of s dt i tr] st by (simp_all add: same_frame_def)
    have len: "length (blocks s1) = length (blocks s)" using c by simp
    have m: "length (blocks s1) - Suc i < length (blocks s) - i" using True len by simp
    have le: "Suc i \<le> length (blocks s1)" using True len by simp
    note ih = less.hyps [OF m le, of tr1]
    have unf: "collide_loop dt i (s, tr) = collide_loop dt (Suc i) (s1, tr1)"
      using True st by (simp add: collide_loop.simps [of dt i "(s, tr)"])
    have dr: "drop (Suc i) (blocks s1) = drop (Suc i) (blocks s)" using c by simp
    have tk: "take (Suc i) (blocks s1) = take i (blocks s) @ [?b]"
      using c True by (simp add: take_Suc_conv_app_nth)
    have di: "drop i (blocks s) = blocks s ! i # drop (Suc i) (blocks s)"
      using True by (simp add: Cons_nth_drop_Suc)
    have nth: "\<And>j. Suc i \<le> j \<Longrightarrow> blocks s1 ! j = blocks s ! j" using c by simp
    have fl: "filter (\<lambda>j. hitsPlayer (g_player s) (Block_update dt (blocks s1 ! j)) \<or>
                           fallenPast (g_canvas s) (Block_update dt (blocks s1 ! j)))
                [Suc i..<length (blocks s)] =
              filter (\<lambda>j. hitsPlayer (g_player s) (Block_update dt (blocks s ! j)) \<or>
                           fallenPast (g_canvas s) (Block_update dt (blocks s ! j)))
                [Suc i..<length (blocks s)]"
      by (rule filter_cong) (auto simp: nth)
    have up: "[i..<length (blocks s)] = i # [Suc i..<length (blocks s)]"
      using True by (simp add: upt_conv_Cons)
    have 1: "blocks (fst (collide_loop dt i (s, tr))) =
           take i (blocks s) @ map (Block_update dt) (drop i (blocks s))"
      using ih tk dr di unf by simp
    have 2: "snd (collide_loop dt i (s, tr)) =
           tr @ filter (\<lambda>j. hitsPlayer (g_player s) (Block_update dt (blocks s ! j)) \<or>
                          fallenPast (g_canvas s) (Block_update dt (blocks s ! j)))
                  [i..<length (blocks s)]"
      using ih c fl unf fr len by (simp add: up)
    have 3: "misses (fst (collide_loop dt i (s, tr))) =
           misses s + int (length (filter (\<lambda>b. \<not> hitsPlayer (g_player s) b \<and> fallenPast (g_canvas s) b)
                                     (map (Block_update dt) (drop i (blocks s)))))"
      using ih c unf fr dr by (simp add: di)
    have 4: "score (fst (collide_loop dt i (s, tr))) =
           fold (resolve_score (g_player s) (g_canvas s))
             (map (Block_update dt) (drop i (blocks s))) (score s)"
      using ih c unf fr dr by (simp add: di)
    from 1 2 3 4 show ?thesis by blast
  qed
qed

lemma splice_fold:
  "fold splice1 (rev (filter (\<lambda>j. R (xs ! j)) [0..<length xs])) (xs @ ys) =
     filter (\<lambda>x. \<not> R x) xs @ ys"
proof (induction xs arbitrary: ys rule: rev_induct)
  case Nil
  show ?case by simp
next
  case (snoc x xs)
  have cg: "filter (\<lambda>j. R ((xs @ [x]) ! j)) [0..<length xs] = filter (\<lambda>j. R (xs ! j)) [0..<length xs]"
    by (rule filter_cong) (auto simp: nth_append)
  show ?case
  proof (cases "R x")
    case True
    have "splice1 (length xs) ((xs @ [x]) @ ys) = xs @ ys" by (simp add: splice1_def)
    with True cg snoc.IH [of ys] show ?thesis by simp
  next
    case False
    with cg snoc.IH [of "x # ys"] show ?thesis by simp
  qed
qed

lemma remove_blocks_filter:
  "remove_blocks (filter (\<lambda>j. R (xs ! j)) [0..<length xs]) xs = filter (\<lambda>x. \<not> R x) xs"
  using splice_fold [of R xs "[]"] by (simp add: remove_blocks_def)

lemma spawn_loop_keeps:
  "score (fst (spawn_loop (t, em))) = score t \<and> misses (fst (spawn_loop (t, em))) = misses t \<and>
   g_canvas (fst (spawn_loop (t, em))) = g_canvas t \<and>
   g_player (fst (spawn_loop (t, em))) = g_player t"
proof (induction "length (spawns t) - spawnIndex t" arbitrary: t em rule: less_induct)
  case less
  show ?case
  proof (cases "spawnIndex t < length (spawns t) \<and> n_time (spawns t ! spawnIndex t) \<le> timeElapsed t")
    case True
    let ?d = "spawns t ! spawnIndex t"
    let ?t1 = "(spawnBlockOfType (n_type ?d) (n_lane ?d) t)\<lparr>spawnIndex := Suc (spawnIndex t)\<rparr>"
    have "length (spawns ?t1) - spawnIndex ?t1 < length (spawns t) - spawnIndex t"
      using True by auto
    from less.hyps [OF this, of "em @ [?d]"] True show ?thesis
      by (simp add: spawn_loop_step)
  next
    case False
    then show ?thesis by (simp add: spawn_loop_stop)
  qed
qed

lemma update_spawn_keeps:
  "score (update_spawn dt s) = score s \<and> misses (update_spawn dt s) = misses s \<and>
   g_canvas (update_spawn dt s) = g_canvas s \<and> g_player (update_spawn dt s) = g_player s"
proof (cases "usePattern s")
  case True
  with spawn_loop_keeps [of "advance_clock dt s" "[]"] show ?thesis
    by (simp add: update_spawn_def Let_def)
next
  case False
  then show ?thesis by (simp add: update_spawn_def Let_def)
qed

lemma update_collision_phase:
  assumes "\<not> gameOver s"
  shows
    "blocks (GameScene_update dt s) =
       filter (\<lambda>b. \<not> hitsPlayer (Player_update dt (g_player s)) b \<and> \<not> fallenPast (g_canvas s) b)
         (map (Block_update dt) (blocks (update_spawn dt s))) \<and>
     misses (GameScene_update dt s) =
       misses s +
       int (length (filter (\<lambda>b. \<not> hitsPlayer (Player_update dt (g_player s)) b \<and>
                                  fallenPast (g_canvas s) b)
                      (map (Block_update dt) (blocks (update_spawn dt s))))) \<and>
     score (GameScene_update dt s) =
       fold (resolve_score (Player_update dt (g_player s)) (g_canvas s))
         (map (Block_update dt) (blocks (update_spawn dt s))) (score s)"
proof -
  let ?s4 = "before_collisions dt s"
  let ?p = "Player_update dt (g_player s)"
  let ?bs = "map (Block_update dt) (blocks (update_spawn dt s))"
  let ?R = "\<lambda>b. hitsPlayer ?p b \<or> fallenPast (g_canvas s) b"
  obtain s5 tr where c: "collide_loop dt 0 (?s4, []) = (s5, tr)"
    by (cases "collide_loop dt 0 (?s4, [])")
  note f = update_spawn_keeps [of dt s]
  have s4: "g_player ?s4 = ?p" "g_canvas ?s4 = g_canvas s" "blocks ?s4 = blocks (update_spawn dt s)"
    "misses ?s4 = misses s" "score ?s4 = score s"
    using f by (simp_all add: before_collisions_def Let_def)
  note ch = collide_loop_char [of 0 ?s4 dt "[]", unfolded c fst_conv snd_conv s4, simplified]
  have bl: "blocks s5 = ?bs" using ch by simp
  have idx: "tr = filter (\<lambda>j. ?R (?bs ! j)) [0..<length ?bs]"
  proof -
    have "filter (\<lambda>j. ?R (Block_update dt (blocks (update_spawn dt s) ! j)))
            [0..<length (blocks (update_spawn dt s))] =
          filter (\<lambda>j. ?R (?bs ! j)) [0..<length (blocks (update_spawn dt s))]"
      by (rule filter_cong) auto
    with ch show ?thesis by simp
  qed
  have rm: "remove_blocks tr (blocks s5) = filter (\<lambda>b. \<not> ?R b) ?bs"
    unfolding bl idx by (rule remove_blocks_filter)
  have 1: "blocks (GameScene_update dt s) = filter (\<lambda>b. \<not> ?R b) ?bs"
    using assms c rm
    by (simp add: GameScene_update_def Let_def endGame_def updateScoreEffects_def)
  have 2: "misses (GameScene_update dt s) = misses s5" "score (GameScene_update dt s) = score s5"
    using assms c
    by (simp_all add: GameScene_update_def Let_def endGame_def updateScoreEffects_def)
  from 1 2 ch show ?thesis by simp
qed

lemma fallenPast_bottom_edge:
  "fallenPast cv b \<Longrightarrow> 0 \<le> b_size b \<Longrightarrow> cv_height cv < b_y b + b_size b"
  by (simp add: fallenPast_def)

lemma update_player_canvas:
  assumes "\<not> gameOver s"
  shows "g_player (GameScene_update dt s) = Player_update dt (g_player s) \<and>
         g_canvas (GameScene_update dt s) = g_canvas s"
proof -
  let ?s4 = "before_collisions dt s"
  obtain s5 tr where c: "collide_loop dt 0 (?s4, []) = (s5, tr)"
    by (cases "collide_loop dt 0 (?s4, [])")
  have "same_frame ?s4 s5" using collide_loop_frame [of "(?s4, [])" dt 0] c by simp
  then show ?thesis
    using assms c update_spawn_keeps [of dt s]
    by (simp add: GameScene_update_def Let_def same_frame_def endGame_def updateScoreEffects_def
        before_collisions_def)
qed

lemma upt6: "[0..<6] = [0, 1, 2, 3, 4, 5::nat]"
  by (simp add: upt_rec)

lemma miss_game_spawn:
  "blocks (update_spawn dt miss_game) =
     (if 0 \<le> dt then [Block_new (100 / 3) (- 40) 40 200 (blockTypes ! 0)] else [])"
  by (simp add: update_spawn_def advance_clock_def GameScene_new_def miss_song_def demo_canvas_def
      miss_game_def Let_def spawn_loop_step spawn_loop_stop spawnBlockOfType_def
      spawnBlockWithTypeDef_def blockTypes_def numLanes_def upt6)

lemma miss_game_fields:
  "\<not> gameOver miss_game" "misses miss_game = 0" "score miss_game = 0"
  "g_canvas miss_game = demo_canvas" "g_player miss_game = Player_new demo_canvas"
  by (simp_all add: miss_game_def GameScene_new_def Let_def)

lemma miss_frame_state:
  "blocks miss_frame =
     [\<lparr>b_x = 100 / 3, b_y = 580, b_size = 40, b_speed = 200, b_type = blockTypes ! 0,
       b_rotation = 0, b_pulseTime = 0, b_alpha = 1\<rparr>] \<and>
   misses miss_frame = 0 \<and>
   g_canvas miss_frame = demo_canvas \<and>
   g_player miss_frame = Player_update (31 / 10) (Player_new demo_canvas)"
  unfolding miss_frame_def
  using update_collision_phase [OF miss_game_fields(1), of "31 / 10"]
    update_player_canvas [OF miss_game_fields(1), of "31 / 10"]
  by (simp add: miss_game_spawn miss_game_fields Block_new_def Block_update_def blockTypes_def
      Let_def hitsPlayer_def fallenPast_def rectIntersect_def Player_update_def Player_new_def
      demo_canvas_def player_size_def)

text \<open>
  Claim C4, as the code has it. In a frame of a running session the collision loop sees the
  blocks after the spawn step, each moved by its own \<open>update\<close>, and the player after its
  \<open>update\<close>. A block that does not intersect the player is counted as a miss (one more miss,
  the penalty on the score, the block removed) exactly when
  \<open>block.y - block.size / 2 > canvas.height\<close>, that is when its top edge is more than half
  its size below the lower boundary; the blocks neither hit nor past that line are the ones
  that stay, moved and in their order.
\<close>

theorem update_miss_rule:
  assumes "\<not> gameOver s"
  shows
    "blocks (GameScene_update dt s) =
       filter (\<lambda>b. \<not> hitsPlayer (Player_update dt (g_player s)) b \<and> \<not> fallenPast (g_canvas s) b)
         (map (Block_update dt) (blocks (update_spawn dt s))) \<and>
     misses (GameScene_update dt s) =
       misses s +
       int (length (filter (\<lambda>b. \<not> hitsPlayer (Player_update dt (g_player s)) b \<and>
                                  fallenPast (g_canvas s) b)
                      (map (Block_update dt) (blocks (update_spawn dt s))))) \<and>
     score (GameScene_update dt s) =
       fold (resolve_score (Player_update dt (g_player s)) (g_canvas s))
         (map (Block_update dt) (blocks (update_spawn dt s))) (score s)"
  using assms by (rule update_collision_phase)

theorem update_miss_rule_witness:
  "\<not> gameOver miss_game \<and>
   blocks (GameScene_update (34 / 10) miss_game) = [] \<and>
   misses (GameScene_update (34 / 10) miss_game) = 1 \<and>
   score (GameScene_update (34 / 10) miss_game) = 0"
  using update_miss_rule [OF miss_game_fields(1), of "34 / 10"]
  by (simp add: miss_game_spawn miss_game_fields Block_new_def Block_update_def blockTypes_def
      Let_def hitsPlayer_def fallenPast_def rectIntersect_def Player_update_def Player_new_def
      demo_canvas_def player_size_def resolve_score_def scoring_miss_def)

text \<open>
  The claim as stated fails. After one frame of 3.1 seconds the block of the one-note session
  has its top edge at 580 and its bottom edge at 620, below the lower boundary at 600; it
  does not intersect the player; yet no miss is counted and the block stays.
\<close>

theorem miss_at_bottom_edge_counterexample:
  "length (blocks miss_frame) = 1 \<and>
   cv_height (g_canvas miss_frame) < b_y (hd (blocks miss_frame)) + b_size (hd (blocks miss_frame)) \<and>
   \<not> hitsPlayer (g_player miss_frame) (hd (blocks miss_frame)) \<and>
   misses miss_frame = 0"
  by (simp add: miss_frame_state demo_canvas_def hitsPlayer_def rectIntersect_def
      Player_update_def Player_new_def player_size_def Let_def)

section \<open>The entry animation of the player\<close>

lemma entryScale_at_completion: "entryScale (8 / 10) (Player_new cv) = 8 / 10"
  by (simp add: entryScale_def Player_new_def)

text \<open>
  Claim C5. The comment in \<open>Player.update\<close> promises a curve that "starts large, shrinks,
  then settles at scale 1"; the curve computed is \<open>0.8 + 0.2 * sin (2 * pi * progress)\<close>.
  At progress 0 and at the end of the duration (a first frame of 0.8 seconds) its value is
  0.8, not 1; it is 1 at a quarter of the duration only. Once the duration has passed the
  factor is the constant 1, and the scale is always the product of the entry factor and the
  pulse factor.
\<close>

theorem entryScale_curve_values:
  "entryScale 0 (Player_new cv) = 8 / 10 \<and>
   entryScale (8 / 10) (Player_new cv) = 8 / 10 \<and>
   entryScale (2 / 10) (Player_new cv) = 1 \<and>
   p_scale (Player_update (8 / 10) (Player_new cv)) = 8 / 10 * pulseScale (8 / 10) (Player_new cv) \<and>
   entryScale dt (Player_update (8 / 10) (Player_new cv)) = 1 \<and>
   p_scale (Player_update dt p) = entryScale dt p * pulseScale dt p"
  using entryScale_at_completion [of cv]
  by (simp add: entryScale_def Player_new_def Player_update_def Let_def)

section \<open>The coordinate transforms of the timeline\<close>



text \<open>In the scene: the \<open>y\<close> at which \<open>render\<close> places a note of the time under the pointer
  is the pointer's \<open>y\<close>.\<close>

lemma pointer_round_trip:
  "0 < pxPerSecond s \<Longrightarrow>
     viewportY s + localYOfTime (pxPerSecond s) (scrollOffset s) (pointerTime s y) = y"
  by (simp add: pointerTime_def Let_def localYOfTime_def timeOfLocalY_def)

section \<open>Note events whose type index is out of range\<close>





section \<open>The editor: layout, and a move with a stale drag index\<close>

lemma computeLayout_fields [simp]:
  "ed_spawns (computeLayout s) = ed_spawns s"
  "heap (computeLayout s) = heap s"
  "nextRef (computeLayout s) = nextRef s"
  "levels (computeLayout s) = levels s"
  "currentLevelIndex (computeLayout s) = currentLevelIndex s"
  "storage (computeLayout s) = storage s"
  "dragging (computeLayout s) = dragging s"
  "scrollHandleDragging (computeLayout s) = scrollHandleDragging s"
  "dragNoteIndex (computeLayout s) = dragNoteIndex s"
  "bounds (computeLayout s) = bounds s"
  "deleteMode (computeLayout s) = deleteMode s"
  "selectedBlockType (computeLayout s) = selectedBlockType s"
  "pxPerSecond (computeLayout s) = pxPerSecond s"
  "ed_canvas (computeLayout s) = ed_canvas s"
  by (simp_all add: computeLayout_def Let_def)

lemma onTouchMove_scroll:
  "scrollHandleDragging s \<Longrightarrow>
     ed_spawns (onTouchMove x y s) = ed_spawns s \<and> heap (onTouchMove x y s) = heap s \<and>
     levels (onTouchMove x y s) = levels s \<and>
     dragging (onTouchMove x y s) = dragging s \<and>
     dragNoteIndex (onTouchMove x y s) = dragNoteIndex s \<and>
     scrollHandleDragging (onTouchMove x y s)"
  by (simp add: onTouchMove_def Let_def split: option.split)

lemma onTouchMove_stale:
  assumes "\<not> scrollHandleDragging s" "dragging s"
    "case dragNoteIndex s of None \<Rightarrow> True | Some i \<Rightarrow> length (ed_spawns s) \<le> i"
  shows "onTouchMove x y s = computeLayout s"
proof (cases "dragNoteIndex s")
  case None
  with assms show ?thesis by (simp add: onTouchMove_def Let_def)
next
  case (Some i)
  with assms show ?thesis by (simp add: onTouchMove_def Let_def)
qed

text \<open>
  Claim C9. A pointer-move while a note drag is active, with a drag index that names no entry
  of the current pattern (none recorded, or one past the end, as after a song switch to a
  shorter pattern), writes nothing: the pattern, the note objects and the levels are as
  before, the drag stays as it was, and unless the scroll handle is dragged too the handler
  has done no more than \<open>computeLayout\<close>.
\<close>

theorem stale_drag_move_noop:
  assumes "dragging s" "case dragNoteIndex s of None \<Rightarrow> True | Some i \<Rightarrow> length (ed_spawns s) \<le> i"
  shows "ed_spawns (onTouchMove x y s) = ed_spawns s \<and> heap (onTouchMove x y s) = heap s \<and>
         levels (onTouchMove x y s) = levels s \<and>
         dragging (onTouchMove x y s) \<and> dragNoteIndex (onTouchMove x y s) = dragNoteIndex s \<and>
         (\<not> scrollHandleDragging s \<longrightarrow> onTouchMove x y s = computeLayout s)"
proof (cases "scrollHandleDragging s")
  case True
  with onTouchMove_scroll [OF True, of x y] assms(1) show ?thesis by simp
next
  case False
  from onTouchMove_stale [OF False assms, of x y] assms(1) show ?thesis by simp
qed

section \<open>The two drag flags\<close>













section \<open>A sample editor, evaluated\<close>

lemma computeLayout_layout:
  "viewportX (computeLayout s) = 80"
  "viewportY (computeLayout s) = 200"
  "viewportWidth (computeLayout s) = cv_width (ed_canvas s) - 134"
  "viewportHeight (computeLayout s) = cv_height (ed_canvas s) - 280"
  "scrollBarX (computeLayout s) = cv_width (ed_canvas s) - 44"
  "scrollBarWidth (computeLayout s) = 24"
  "marginX (computeLayout s) = 20"
  "footerHeight (computeLayout s) = 80"
  "timelineHeightPx (computeLayout s) =
     lv_duration (levels s ! currentLevelIndex s) * pxPerSecond s"
  "scrollOffset (computeLayout s) =
     max (min (scrollOffset s)
            (max 0 (lv_duration (levels s ! currentLevelIndex s) * pxPerSecond s -
                    (cv_height (ed_canvas s) - 280)))) 0"
  by (simp_all add: computeLayout_def Let_def maxScroll_def)

lemma demo0:
  "ed_spawns demo_editor0 = [0]"
  "heap demo_editor0 0 = \<lparr>n_time = 1, n_type = 0, n_lane = 0\<rparr>"
  "nextRef demo_editor0 = 1"
  "scrollOffset demo_editor0 = 0"
  "pxPerSecond demo_editor0 = 50"
  "currentLevelIndex demo_editor0 = 0"
  "ed_canvas demo_editor0 = demo_canvas"
  "map lv_duration (levels demo_editor0) = [120, 120]"
  "\<not> deleteMode demo_editor0"
  "selectedBlockType demo_editor0 = 0"
  unfolding demo_editor0_def
  by (simp_all add: EditorScene_new_def level_one_def level_two_def updateLevelData_def
      sortSpawns_def Let_def)

lemma demo0_duration: "lv_duration (levels demo_editor0 ! 0) = 120"
proof -
  have "map lv_duration (levels demo_editor0) ! 0 = 120" by (simp add: demo0)
  moreover have "0 < length (levels demo_editor0)"
    using demo0(8) by (metis length_map length_greater_0_conv list.distinct(1))
  ultimately show ?thesis by simp
qed

lemma demo_layout:
  "viewportX (computeLayout demo_editor0) = 80"
  "viewportY (computeLayout demo_editor0) = 200"
  "viewportWidth (computeLayout demo_editor0) = 266"
  "viewportHeight (computeLayout demo_editor0) = 320"
  "scrollBarX (computeLayout demo_editor0) = 356"
  "timelineHeightPx (computeLayout demo_editor0) = 6000"
  "scrollOffset (computeLayout demo_editor0) = 0"
  "scrollBarWidth (computeLayout demo_editor0) = 24"
  "marginX (computeLayout demo_editor0) = 20"
  "footerHeight (computeLayout demo_editor0) = 80"
  "maxScroll (computeLayout demo_editor0) = 5680"
  by (simp_all add: computeLayout_layout demo0 demo0_duration demo_canvas_def maxScroll_def)

lemma demo_drawn:
  "drawnNotes (computeLayout demo_editor0) =
     [(''#ff6bcb'', \<lparr>bx_x = 529 / 6, bx_y = 242, bx_w = 28, bx_h = 16\<rparr>)]"
  by (simp add: drawnNotes_def List.map_filter_def drawNote_def Let_def demo0 demo_layout
      localYOfTime_def numLanes_def noteTypeDef_def blockTypes_def)

lemma demo_handle:
  "scrollHandleBox (computeLayout demo_editor0) = \<lparr>bx_x = 356, bx_y = 224, bx_w = 24, bx_h = 30\<rparr>"
  by (simp add: scrollHandleBox_def Let_def demo_layout)

lemma demo_bounds:
  "bounds (render demo_editor0) =
     \<lparr>bd_songPrev = Some \<lparr>bx_x = 100, bx_y = 59, bx_w = 100, bx_h = 32\<rparr>,
      bd_songNext = Some \<lparr>bx_x = 200, bx_y = 59, bx_w = 100, bx_h = 32\<rparr>,
      bd_blockBoxes = Some [\<lparr>bx_x = 120, bx_y = 110, bx_w = 40, bx_h = 40\<rparr>,
                            \<lparr>bx_x = 180, bx_y = 110, bx_w = 40, bx_h = 40\<rparr>,
                            \<lparr>bx_x = 240, bx_y = 110, bx_w = 40, bx_h = 40\<rparr>],
      bd_delete = Some \<lparr>bx_x = 150, bx_y = 162, bx_w = 100, bx_h = 32\<rparr>,
      bd_track = Some \<lparr>bx_x = 80, bx_y = 200, bx_w = 266, bx_h = 320\<rparr>,
      bd_noteBoxes = Some [\<lparr>bx_x = 529 / 6, bx_y = 242, bx_w = 28, bx_h = 16\<rparr>],
      bd_scrollUp = Some \<lparr>bx_x = 356, bx_y = 200, bx_w = 24, bx_h = 24\<rparr>,
      bd_scrollDown = Some \<lparr>bx_x = 356, bx_y = 496, bx_w = 24, bx_h = 24\<rparr>,
      bd_scrollHandle = Some \<lparr>bx_x = 356, bx_y = 224, bx_w = 24, bx_h = 30\<rparr>,
      bd_save = Some \<lparr>bx_x = 20, bx_y = 540, bx_w = 320 / 3, bx_h = 40\<rparr>,
      bd_test = Some \<lparr>bx_x = 20 + 320 / 3 + 20, bx_y = 540, bx_w = 320 / 3, bx_h = 40\<rparr>,
      bd_back = Some \<lparr>bx_x = 20 + 320 / 3 + 20 + 320 / 3 + 20, bx_y = 540, bx_w = 320 / 3, bx_h = 40\<rparr>\<rparr>"
  by (simp add: render_def Let_def demo_drawn demo_handle demo_layout
      demo0 demo_canvas_def blockTypes_def upt_rec)

section \<open>Toggling a note by tapping the track\<close>

lemma firstIndex_None: "firstIndex P xs = None \<longleftrightarrow> (\<forall>v \<in> set xs. \<not> P v)"
  by (induction xs) auto



lemma computeLayout_idem: "computeLayout (computeLayout s) = computeLayout s"
  by (simp add: computeLayout_def Let_def maxScroll_def)

lemma computeLayout_store:
  "computeLayout (s\<lparr>heap := h, nextRef := n, ed_spawns := rs\<rparr>) =
     (computeLayout s)\<lparr>heap := h, nextRef := n, ed_spawns := rs\<rparr>"
  by (simp add: computeLayout_def Let_def maxScroll_def)

lemma onTouchStart_track:
  "hitTarget (bounds s) x y = OnTrack \<Longrightarrow> onTouchStart x y s = trackTap x y (computeLayout s)"
  by (simp add: onTouchStart_def Let_def)

lemma trackTap_insert:
  assumes "\<not> deleteMode c"
    and "0 \<le> pointerTime c y" "pointerTime c y \<le> lv_duration (levels c ! currentLevelIndex c)"
    and "\<forall>r \<in> set (ed_spawns c). \<not> nearNote c (pointerLane c x) (pointerTime c y) r"
  shows "trackTap x y c =
     c\<lparr>heap := (heap c)(nextRef c := \<lparr>n_time = toFixed2 (pointerTime c y),
                                         n_type = selectedBlockType c,
                                         n_lane = pointerLane c x\<rparr>),
        nextRef := Suc (nextRef c),
        ed_spawns := sortSpawns
          ((heap c)(nextRef c := \<lparr>n_time = toFixed2 (pointerTime c y),
                                    n_type = selectedBlockType c,
                                    n_lane = pointerLane c x\<rparr>))
          (ed_spawns c @ [nextRef c])\<rparr>"
proof -
  have "firstIndex (nearNote c (pointerLane c x) (pointerTime c y)) (ed_spawns c) = None"
    using assms(4) by (simp add: firstIndex_None)
  with assms(1,2,3) show ?thesis
    by (simp add: trackTap_def Let_def not_less [symmetric])
qed


lemma pointer_store [simp]:
  "pointerTime (c\<lparr>heap := h, nextRef := n, ed_spawns := rs\<rparr>) y = pointerTime c y"
  "pointerLane (c\<lparr>heap := h, nextRef := n, ed_spawns := rs\<rparr>) x = pointerLane c x"
  by (simp_all add: pointerTime_def pointerLane_def Let_def)


lemma render_fields [simp]:
  "ed_spawns (render s) = ed_spawns s"
  "heap (render s) = heap s"
  "nextRef (render s) = nextRef s"
  "levels (render s) = levels s"
  "currentLevelIndex (render s) = currentLevelIndex s"
  "storage (render s) = storage s"
  "dragging (render s) = dragging s"
  "scrollHandleDragging (render s) = scrollHandleDragging s"
  "dragNoteIndex (render s) = dragNoteIndex s"
  "deleteMode (render s) = deleteMode s"
  "selectedBlockType (render s) = selectedBlockType s"
  "pxPerSecond (render s) = pxPerSecond s"
  "ed_canvas (render s) = ed_canvas s"
  "scrollOffset (render s) = scrollOffset (computeLayout s)"
  by (simp_all add: render_def Let_def)


lemma onTouchStart_on_note:
  assumes "hitTarget (bounds s) x y = OnNote i"
  shows "dragging (onTouchStart x y s) \<and>
         dragNoteIndex (onTouchStart x y s) = Some i \<and>
         scrollHandleDragging (onTouchStart x y s) = scrollHandleDragging s \<and>
         bounds (onTouchStart x y s) = bounds s \<and>
         ed_spawns (onTouchStart x y s) = ed_spawns s \<and> heap (onTouchStart x y s) = heap s \<and>
         levels (onTouchStart x y s) = levels s \<and> storage (onTouchStart x y s) = storage s \<and>
         currentLevelIndex (onTouchStart x y s) = currentLevelIndex s"
  using assms by (simp add: onTouchStart_def Let_def)


lemma onTouchStart_on_songNext:
  assumes "hitTarget (bounds s) x y = OnSongNext"
  shows "onTouchStart x y s = nextSong (computeLayout s)"
  using assms by (simp add: onTouchStart_def Let_def)

lemma demo_bounds': "bounds (render demo_editor0) = demo_bounds_value"
  by (simp add: demo_bounds demo_bounds_value_def)

lemma demo_targets:
  "hitTarget demo_bounds_value 360 230 = OnScrollHandle"
  "hitTarget demo_bounds_value 100 250 = OnNote 0"
  "hitTarget demo_bounds_value 250 70 = OnSongNext"
  "hitTarget demo_bounds_value 200 170 = OnDelete"
  "hitTarget demo_bounds_value 200 400 = OnTrack"
  by (simp_all add: demo_bounds_value_def hitTarget_def hitBox_def firstBoxHit_def)


lemma demo0_more:
  "levels demo_editor0 =
     [\<lparr>lv_title = ''one'', lv_file = ''assets/audio/one.wav'', lv_duration = 120,
       lv_spawns = Some [0]\<rparr>,
      \<lparr>lv_title = ''two'', lv_file = ''assets/audio/two.wav'', lv_duration = 120,
       lv_spawns = Some []\<rparr>]"
  "storage demo_editor0 = (\<lambda>k. None)"
  "\<not> dragging demo_editor0" "\<not> scrollHandleDragging demo_editor0"
  unfolding demo_editor0_def
  by (simp_all add: EditorScene_new_def level_one_def level_two_def updateLevelData_def
      sortSpawns_def Let_def)

lemma render_layout [simp]:
  "viewportX (render s) = viewportX (computeLayout s)"
  "viewportY (render s) = viewportY (computeLayout s)"
  "viewportWidth (render s) = viewportWidth (computeLayout s)"
  "viewportHeight (render s) = viewportHeight (computeLayout s)"
  by (simp_all add: render_def Let_def)

lemma computeLayout_render: "computeLayout (render s) = render s"
proof -
  have "computeLayout (c\<lparr>bounds := b\<rparr>) = (computeLayout c)\<lparr>bounds := b\<rparr>" for c b
    by (simp add: computeLayout_def Let_def maxScroll_def)
  then show ?thesis by (simp add: render_def Let_def computeLayout_idem)
qed


lemma demo_pointer:
  "pointerTime demo_editor 400 = 4" "pointerLane demo_editor 200 = 2"
  by (simp_all add: demo_editor_def pointerTime_def pointerLane_def Let_def timeOfLocalY_def
      demo_layout demo0 numLanes_def)



lemma demo_editor_facts:
  "computeLayout demo_editor = demo_editor"
  "ed_spawns demo_editor = [0]" "heap demo_editor 0 = \<lparr>n_time = 1, n_type = 0, n_lane = 0\<rparr>"
  "nextRef demo_editor = 1" "\<not> deleteMode demo_editor" "pxPerSecond demo_editor = 50"
  "currentLevelIndex demo_editor = 0" "lv_duration (levels demo_editor ! 0) = 120"
  "selectedBlockType demo_editor = 0"
  "hitTarget (bounds demo_editor) 200 400 = OnTrack"
  by (simp_all add: demo_editor_def computeLayout_render demo0 demo0_duration demo_bounds'
      demo_targets)


lemma updateLevelData_drag [simp]:
  "dragging (updateLevelData s) = dragging s"
  "dragNoteIndex (updateLevelData s) = dragNoteIndex s"
  "scrollHandleDragging (updateLevelData s) = scrollHandleDragging s"
  by (simp_all add: updateLevelData_def Let_def split: prod.split option.split)

lemma stale_editor_facts:
  "dragging stale_editor \<and> \<not> scrollHandleDragging stale_editor \<and>
   dragNoteIndex stale_editor = Some 0 \<and> ed_spawns stale_editor = []"
proof -
  let ?s2 = "onTouchStart 100 250 demo_editor"
  have t1: "hitTarget (bounds demo_editor) 100 250 = OnNote 0"
    by (simp add: demo_editor_def demo_bounds' demo_targets)
  note n = onTouchStart_on_note [OF t1]
  have t2: "hitTarget (bounds ?s2) 250 70 = OnSongNext"
    using n by (simp add: demo_editor_def demo_bounds' demo_targets)
  have s3: "stale_editor = nextSong (computeLayout ?s2)"
    using onTouchStart_on_songNext [OF t2]
    by (simp add: stale_editor_def demo_editor_def)
  have f: "levels ?s2 = levels demo_editor0" "storage ?s2 = storage demo_editor0"
    "currentLevelIndex ?s2 = 0"
    using n by (simp_all add: demo_editor_def demo0)
  have sh: "\<not> scrollHandleDragging ?s2" using n by (simp add: demo_editor_def demo0_more)
  have e: "ed_spawns (nextSong (computeLayout ?s2)) = []"
    by (simp add: nextSong_def updateLevelData_def Let_def f demo0_more sortSpawns_def)
  have d: "dragging (nextSong (computeLayout ?s2))"
    "dragNoteIndex (nextSong (computeLayout ?s2)) = Some 0"
    "\<not> scrollHandleDragging (nextSong (computeLayout ?s2))"
    using n sh by (simp_all add: nextSong_def)
  show ?thesis unfolding s3 using e d by simp
qed

theorem stale_drag_move_noop_witness:
  "dragging stale_editor \<and> dragNoteIndex stale_editor = Some 0 \<and> ed_spawns stale_editor = [] \<and>
   ed_spawns (onTouchMove 150 300 stale_editor) = [] \<and>
   heap (onTouchMove 150 300 stale_editor) = heap stale_editor \<and>
   onTouchMove 150 300 stale_editor = computeLayout stale_editor"
proof -
  have a: "dragging stale_editor" using stale_editor_facts by simp
  have b: "case dragNoteIndex stale_editor of None \<Rightarrow> True
           | Some i \<Rightarrow> length (ed_spawns stale_editor) \<le> i"
    using stale_editor_facts by simp
  from stale_drag_move_noop [OF a b, of 150 300] stale_editor_facts show ?thesis by simp
qed


section \<open>A second tap after the next frame\<close>

lemma tapped_editor:
  "onTouchStart 200 400 demo_editor =
     demo_editor\<lparr>heap := (heap demo_editor)(1 := \<lparr>n_time = 4, n_type = 0, n_lane = 2\<rparr>),
                  nextRef := 2, ed_spawns := [0, 1]\<rparr>"
proof -
  have n: "\<not> nearNote demo_editor 2 4 0"
    by (simp add: nearNote_def Let_def demo_editor_facts)
  have free: "\<forall>r \<in> set (ed_spawns demo_editor). \<not> nearNote demo_editor (pointerLane demo_editor 200)
      (pointerTime demo_editor 400) r"
    using n by (simp add: demo_editor_facts demo_pointer)
  have tf: "toFixed2 4 = 4" by (simp add: toFixed2_def)
  from trackTap_insert [of demo_editor 400 200, OF demo_editor_facts(5) _ _ free]
  have "trackTap 200 400 demo_editor =
     demo_editor\<lparr>heap := (heap demo_editor)(1 := \<lparr>n_time = 4, n_type = 0, n_lane = 2\<rparr>),
                  nextRef := 2, ed_spawns := [0, 1]\<rparr>"
    by (simp add: demo_editor_facts demo_pointer tf sortSpawns_def)
  with onTouchStart_track [OF demo_editor_facts(10)] show ?thesis
    by (simp add: demo_editor_facts)
qed

lemma demo_editor_layout:
  "viewportX demo_editor = 80" "viewportY demo_editor = 200" "viewportWidth demo_editor = 266"
  "viewportHeight demo_editor = 320" "scrollBarX demo_editor = 356"
  "scrollBarWidth demo_editor = 24" "timelineHeightPx demo_editor = 6000"
  "scrollOffset demo_editor = 0" "maxScroll demo_editor = 5680"
  by (simp_all add: demo_editor_def render_def Let_def demo_layout maxScroll_def)

lemma tapped_drawn:
  "drawnNotes (computeLayout (onTouchStart 200 400 demo_editor)) =
     [(''#ff6bcb'', \<lparr>bx_x = 529 / 6, bx_y = 242, bx_w = 28, bx_h = 16\<rparr>),
      (''#ff6bcb'', \<lparr>bx_x = 1061 / 6, bx_y = 392, bx_w = 28, bx_h = 16\<rparr>)]"
  unfolding tapped_editor
  by (simp add: computeLayout_store drawnNotes_def
      List.map_filter_def drawNote_def Let_def demo_editor_facts localYOfTime_def numLanes_def
      noteTypeDef_def blockTypes_def demo_editor_layout)

text \<open>
  Once a frame has rebuilt the hit boxes, the same point lies in the box of the new note:
  the second pointer-down starts a drag of that note and removes nothing.
\<close>

lemma second_tap_after_render_drags:
  "hitTarget (bounds (render (onTouchStart 200 400 demo_editor))) 200 400 = OnNote 1 \<and>
   dragging (onTouchStart 200 400 (render (onTouchStart 200 400 demo_editor))) \<and>
   ed_spawns (onTouchStart 200 400 (render (onTouchStart 200 400 demo_editor))) = [0, 1]"
proof -
  let ?r = "render (onTouchStart 200 400 demo_editor)"
  have nb: "bd_noteBoxes (bounds ?r) =
      Some [\<lparr>bx_x = 529 / 6, bx_y = 242, bx_w = 28, bx_h = 16\<rparr>,
            \<lparr>bx_x = 1061 / 6, bx_y = 392, bx_w = 28, bx_h = 16\<rparr>]"
    by (simp add: render_def Let_def tapped_drawn)
  have sh: "bd_scrollHandle (bounds ?r) = Some (scrollHandleBox (computeLayout (onTouchStart 200 400 demo_editor)))"
    by (simp add: render_def Let_def)
  have hb: "scrollHandleBox (computeLayout (onTouchStart 200 400 demo_editor)) =
      \<lparr>bx_x = 356, bx_y = 224, bx_w = 24, bx_h = 30\<rparr>"
    unfolding tapped_editor
    by (simp add: computeLayout_store demo_editor_facts scrollHandleBox_def Let_def maxScroll_def
        demo_editor_layout)
  have t: "hitTarget (bounds ?r) 200 400 = OnNote 1"
    by (simp add: hitTarget_def nb sh hb hitBox_def firstBoxHit_def)
  from onTouchStart_on_note [OF t] show ?thesis
    using t by (simp add: tapped_editor)
qed

section \<open>The side conditions hold in every reachable editor\<close>

lemma alloc_notes_refs:
  "alloc_notes vs h n = (rs, h', n') \<Longrightarrow> n \<le> n' \<and> (\<forall>r \<in> set rs. r < n')"
proof (induction vs arbitrary: h n rs h' n')
  case Nil
  then show ?case by simp
next
  case (Cons v vs)
  obtain rs1 h1 n1 where a: "alloc_notes vs (h(n := v)) (Suc n) = (rs1, h1, n1)"
    by (cases "alloc_notes vs (h(n := v)) (Suc n)") auto
  from Cons.IH [OF a] have "Suc n \<le> n1" "\<forall>r \<in> set rs1. r < n1" by auto
  with Cons.prems a show ?case by auto
qed

lemma load_levels_refs:
  "load_levels sgs h n = (ls, h', n') \<Longrightarrow>
     n \<le> n' \<and> length ls = length sgs \<and> (\<forall>lv \<in> set ls. \<forall>r \<in> set (level_refs lv). r < n')"
proof (induction sgs arbitrary: h n ls h' n')
  case Nil
  then show ?case by simp
next
  case (Cons sg sgs)
  obtain rs h1 n1 where f: "(case sg_spawns sg of
               None \<Rightarrow> (None, h, n)
             | Some vs \<Rightarrow> (let (rs, h', n') = alloc_notes vs h n in (Some rs, h', n'))) = (rs, h1, n1)"
    by (metis prod_cases3)
  obtain ls2 h2 n2 where l: "load_levels sgs h1 n1 = (ls2, h2, n2)"
    by (metis prod_cases3)
  have first: "n \<le> n1 \<and> (\<forall>r \<in> set (case rs of None \<Rightarrow> [] | Some q \<Rightarrow> q). r < n1)"
  proof (cases "sg_spawns sg")
    case None
    with f show ?thesis by auto
  next
    case (Some vs)
    obtain q h3 n3 where a: "alloc_notes vs h n = (q, h3, n3)" by (metis prod_cases3)
    from alloc_notes_refs [OF a] f Some a show ?thesis by auto
  qed
  from Cons.IH [OF l] have rest: "n1 \<le> n2" "length ls2 = length sgs"
    "\<forall>lv \<in> set ls2. \<forall>r \<in> set (level_refs lv). r < n2" by auto
  have res: "ls = \<lparr>lv_title = sg_title sg, lv_file = sg_file sg, lv_duration = sg_duration sg,
            lv_spawns = rs\<rparr> # ls2" "n' = n2"
    using Cons.prems f l by simp_all
  show ?case
    unfolding res using first rest by (auto simp: level_refs_def)
qed

lemma updateLevelData_refs:
  assumes "currentLevelIndex s < length (levels s)" "pxPerSecond s = 50"
    "\<forall>lv \<in> set (levels s). \<forall>r \<in> set (level_refs lv). r < nextRef s"
  shows "editor_inv (updateLevelData s)"
proof -
  let ?lv = "levels s ! currentLevelIndex s"
  have lv: "?lv \<in> set (levels s)" using assms(1) by simp
  show ?thesis
  proof (cases "storage s (''spawns_'' @ lv_title ?lv)")
    case None
    have "\<forall>r \<in> set (level_refs ?lv). r < nextRef s" using assms(3) lv by blast
    with None assms show ?thesis
      by (simp add: updateLevelData_def Let_def editor_inv_def sortSpawns_def level_refs_def)
  next
    case (Some saved)
    obtain rs h n where a: "alloc_notes saved (heap s) (nextRef s) = (rs, h, n)"
      by (metis prod_cases3)
    from alloc_notes_refs [OF a] have "nextRef s \<le> n" "\<forall>r \<in> set rs. r < n" by auto
    with Some a assms show ?thesis
      by (fastforce simp: updateLevelData_def Let_def editor_inv_def sortSpawns_def)
  qed
qed

lemma editor_inv_computeLayout: "editor_inv (computeLayout s) = editor_inv s"
  by (simp add: editor_inv_def)

lemma editor_inv_render: "editor_inv (render s) = editor_inv s"
  by (simp add: editor_inv_def)

lemma editor_inv_song:
  assumes "editor_inv s"
  shows "editor_inv (prevSong s)" "editor_inv (nextSong s)"
proof -
  have pps: "pxPerSecond s = 50" using assms by (simp add: editor_inv_def)
  have len: "0 < length (levels s)" and lv: "\<forall>lv \<in> set (levels s). \<forall>r \<in> set (level_refs lv). r < nextRef s"
    using assms by (auto simp: editor_inv_def)
  have "nat ((int (currentLevelIndex s) - 1 + int (length (levels s))) mod int (length (levels s)))
        < length (levels s)"
    using len by (simp add: nat_less_iff)
  then show "editor_inv (prevSong s)"
    unfolding prevSong_def using lv pps by (intro updateLevelData_refs) simp_all
  have "(currentLevelIndex s + 1) mod length (levels s) < length (levels s)"
    using len by simp
  then show "editor_inv (nextSong s)"
    unfolding nextSong_def using lv pps by (intro updateLevelData_refs) simp_all
qed

lemma editor_inv_simple:
  assumes "editor_inv s"
  shows "editor_inv (scrollUp s)" "editor_inv (scrollDown s)" "editor_inv (playTest s)"
    "editor_inv (goBack s)"
  using assms
  by (simp_all add: editor_inv_def scrollUp_def scrollDown_def playTest_def goBack_def Let_def)

lemma editor_inv_save:
  assumes "editor_inv s"
  shows "editor_inv (saveSpawns s)"
proof -
  let ?srt = "sortSpawns (heap s) (ed_spawns s)"
  let ?lv = "(levels s ! currentLevelIndex s)\<lparr>lv_spawns := Some ?srt\<rparr>"
  have a: "\<forall>r \<in> set (level_refs ?lv). r < nextRef s"
    using assms by (simp add: editor_inv_def level_refs_def sortSpawns_def)
  have "\<forall>lv \<in> set ((levels s)[currentLevelIndex s := ?lv]). \<forall>r \<in> set (level_refs lv). r < nextRef s"
  proof
    fix lv assume "lv \<in> set ((levels s)[currentLevelIndex s := ?lv])"
    then have "lv = ?lv \<or> lv \<in> set (levels s)"
      using set_update_subset_insert [of "levels s" "currentLevelIndex s" ?lv] by auto
    then show "\<forall>r \<in> set (level_refs lv). r < nextRef s"
      using a assms by (auto simp: editor_inv_def)
  qed
  with assms show ?thesis
    by (simp add: saveSpawns_def Let_def editor_inv_def sortSpawns_def)
qed

lemma editor_inv_trackTap:
  assumes "editor_inv s"
  shows "editor_inv (trackTap x y s)"
proof -
  have sub: "\<And>i. \<forall>r \<in> set (splice1 i (ed_spawns s)). r < nextRef s"
    using assms splice1_subset [of _ "ed_spawns s"] by (auto simp: editor_inv_def)
  have up: "\<forall>lv \<in> set (levels s). \<forall>r \<in> set (level_refs lv). r < Suc (nextRef s)"
    using assms by (auto simp: editor_inv_def intro: less_SucI)
  have new: "\<forall>r \<in> set (ed_spawns s). r < Suc (nextRef s)"
    using assms by (auto simp: editor_inv_def intro: less_SucI)
  show ?thesis
    using assms sub up new
    by (simp add: trackTap_def Let_def editor_inv_def sortSpawns_def split: option.split)
qed

lemma editor_inv_onTouchStart:
  assumes "editor_inv s"
  shows "editor_inv (onTouchStart x y s)"
proof -
  let ?c = "computeLayout s"
  have c: "editor_inv ?c" using assms by (simp add: editor_inv_computeLayout)
  have fl: "\<And>f. editor_inv (?c\<lparr>deleteMode := f\<rparr>)" "\<And>i. editor_inv (?c\<lparr>selectedBlockType := i\<rparr>)"
    "\<And>i. editor_inv (?c\<lparr>dragging := True, dragNoteIndex := Some i\<rparr>)"
    "\<And>o'. editor_inv (?c\<lparr>scrollHandleDragging := True, scrollHandleOffset := o'\<rparr>)"
    using c by (simp_all add: editor_inv_def)
  show ?thesis
  proof (cases "hitTarget (bounds ?c) x y")
    case OnScrollHandle
    then show ?thesis using c fl by (simp add: onTouchStart_def Let_def split: option.split)
  qed (use c fl editor_inv_song [OF c] editor_inv_simple [OF c] editor_inv_save [OF c]
        editor_inv_trackTap [OF c] in \<open>simp_all add: onTouchStart_def Let_def\<close>)
qed

lemma editor_inv_onTouchMove:
  assumes "editor_inv s"
  shows "editor_inv (onTouchMove x y s)"
  using assms by (simp add: onTouchMove_def Let_def editor_inv_def split: option.split)

lemma editor_inv_onTouchEnd:
  assumes "editor_inv s"
  shows "editor_inv (onTouchEnd s)"
  using assms by (simp add: onTouchEnd_def editor_inv_def sortSpawns_def)

lemma editor_inv_deliver_all:
  "editor_inv s \<Longrightarrow> editor_inv (deliver_all es s)"
proof (induction es arbitrary: s)
  case Nil
  then show ?case by simp
next
  case (Cons e es)
  have "editor_inv (deliver e s)"
    using Cons.prems
    by (cases e) (simp_all add: editor_inv_onTouchStart editor_inv_onTouchMove
        editor_inv_onTouchEnd editor_inv_render)
  from Cons.IH [OF this] show ?case by simp
qed

lemma editor_inv_new:
  assumes "modules \<noteq> []"
  shows "editor_inv (EditorScene_new cv modules st fs)"
proof -
  obtain ls h n where l: "load_levels modules (\<lambda>r. \<lparr>n_time = 0, n_type = 0, n_lane = 0\<rparr>) 0 = (ls, h, n)"
    by (metis prod_cases3)
  from load_levels_refs [OF l] assms have "0 < length ls"
    "\<forall>lv \<in> set ls. \<forall>r \<in> set (level_refs lv). r < n" by auto
  then show ?thesis
    unfolding EditorScene_new_def l by (simp add: updateLevelData_refs)
qed

lemma reachable_nextRef_fresh:
  "modules \<noteq> [] \<Longrightarrow>
     nextRef (deliver_all es (EditorScene_new cv modules st fs)) \<notin>
       set (ed_spawns (deliver_all es (EditorScene_new cv modules st fs))) \<and>
     pxPerSecond (deliver_all es (EditorScene_new cv modules st fs)) = 50"
  using editor_inv_deliver_all [OF editor_inv_new, of modules es cv st fs]
  by (auto simp: editor_inv_def)

end
